theory Spec2Isabelle
  imports Main
begin

section \<open>Product store service: records, store and request handlers\<close>

text \<open>
  The service is a Flask application. Its request handlers are in
  \<^verbatim>\<open>service/routes.py\<close>; the record layer they call (\<^verbatim>\<open>service/models.py\<close>:
  the classes \<^verbatim>\<open>Product\<close>, \<^verbatim>\<open>Category\<close> and \<^verbatim>\<open>DataValidationError\<close>) is described by
  the specification and exercised by \<^verbatim>\<open>tests/test_models.py\<close>.

  Strings are byte strings restricted to ASCII: \<^verbatim>\<open>upper\<close>, \<^verbatim>\<open>lower\<close> and the digit
  test act on the ASCII letters and digits only. The type has the characters U+0080 to
  U+00FF too; of these, \<^verbatim>\<open>strip\<close> knows the two that are whitespace, and none is a
  decimal digit.
\<close>

subsection \<open>Decimal numbers and their text form\<close>

text \<open>
  A decimal number, as Python's \<^verbatim>\<open>decimal.Decimal\<close> represents a finite one: a sign, a
  coefficient and an exponent; the number is \<open>(-1)^sign * coefficient * 10^exponent\<close>.
  A price is such a number. The values of \<^verbatim>\<open>decimal.Decimal\<close> that are not numbers, and the
  limits CPython puts on a number, are in \<open>Decimal_value\<close> and \<open>Decimal\<close> below.
\<close>

datatype decimal = Dec (dsign: bool) (dcoeff: nat) (dexp: int)

definition signed_coeff :: "decimal \<Rightarrow> int" where
  "signed_coeff d = (if dsign d then - int (dcoeff d) else int (dcoeff d))"

text \<open>Python's \<^verbatim>\<open>==\<close> on decimals compares the numbers, not the representations:
  \<^verbatim>\<open>Decimal("19.99") == Decimal("19.990")\<close>.\<close>

definition dec_eq :: "decimal \<Rightarrow> decimal \<Rightarrow> bool" where
  "dec_eq a b =
     (let m = min (dexp a) (dexp b)
      in signed_coeff a * 10 ^ nat (dexp a - m) = signed_coeff b * 10 ^ nat (dexp b - m))"

definition is_digit :: "char \<Rightarrow> bool" where
  "is_digit c \<longleftrightarrow> 48 \<le> (of_char c :: nat) \<and> (of_char c :: nat) \<le> 57"

definition digit_char :: "nat \<Rightarrow> char" where
  "digit_char n = char_of (48 + n)"

definition digit_val :: "char \<Rightarrow> nat" where
  "digit_val c = of_char c - 48"

text \<open>\<^verbatim>\<open>str(n)\<close> for a natural number: its decimal digits, no leading zero.\<close>

fun str_nat :: "nat \<Rightarrow> string" where
  "str_nat n = (if n < 10 then [digit_char n] else str_nat (n div 10) @ [digit_char (n mod 10)])"

declare str_nat.simps [simp del]

text \<open>\<^verbatim>\<open>int(ds)\<close> for a string of digits (leading zeros allowed, the empty string is 0
  where the callers below pass it).\<close>

definition int_digits :: "string \<Rightarrow> nat" where
  "int_digits ds = foldl (\<lambda>a c. 10 * a + digit_val c) 0 ds"

text \<open>\<^verbatim>\<open>"%+d" % n\<close>: the sign is always written.\<close>

definition str_plus_d :: "int \<Rightarrow> string" where
  "str_plus_d n = (if n < 0 then CHR ''-'' # str_nat (nat (- n)) else CHR ''+'' # str_nat (nat n))"

text \<open>
  \<^verbatim>\<open>Decimal.__str__\<close> (scientific string of the General Decimal Arithmetic
  specification, \<^verbatim>\<open>eng=False\<close>, capital \<^verbatim>\<open>E\<close>):
  \<^verbatim>\<open>
  sign = ['', '-'][self._sign]
  leftdigits = self._exp + len(self._int)
  if self._exp <= 0 and leftdigits > -6: dotplace = leftdigits
  else: dotplace = 1
  if dotplace <= 0:
      intpart = '0'; fracpart = '.' + '0'*(-dotplace) + self._int
  elif dotplace >= len(self._int):
      intpart = self._int + '0'*(dotplace-len(self._int)); fracpart = ''
  else:
      intpart = self._int[:dotplace]; fracpart = '.' + self._int[dotplace:]
  if leftdigits == dotplace: exp = ''
  else: exp = 'E' + "%+d" % (leftdigits-dotplace)
  return sign + intpart + fracpart + exp
  \<close>
\<close>

definition str_decimal :: "decimal \<Rightarrow> string" where
  "str_decimal d =
     (let sgn = (if dsign d then ''-'' else '''');
          ds = str_nat (dcoeff d);
          leftdigits = dexp d + int (length ds);
          dotplace = (if dexp d \<le> 0 \<and> leftdigits > - 6 then leftdigits else 1);
          intpart = (if dotplace \<le> 0 then ''0''
                     else if dotplace \<ge> int (length ds)
                       then ds @ replicate (nat (dotplace - int (length ds))) CHR ''0''
                     else take (nat dotplace) ds);
          fracpart = (if dotplace \<le> 0 then ''.'' @ replicate (nat (- dotplace)) CHR ''0'' @ ds
                      else if dotplace \<ge> int (length ds) then ''''
                      else ''.'' @ drop (nat dotplace) ds);
          exp = (if leftdigits = dotplace then '''' else ''E'' @ str_plus_d (leftdigits - dotplace))
      in sgn @ intpart @ fracpart @ exp)"

subsection \<open>Errors\<close>

text \<open>
  Every exception a handler can let escape is a value: the record layer's
  \<^verbatim>\<open>DataValidationError\<close> and not-found condition, Python's \<^verbatim>\<open>AttributeError\<close>,
  \<^verbatim>\<open>decimal.InvalidOperation\<close>, the routing \<^verbatim>\<open>BuildError\<close> of \<^verbatim>\<open>url_for\<close>, and the
  \<^verbatim>\<open>HTTPException\<close> that Flask's \<^verbatim>\<open>abort(code, description)\<close> raises.
\<close>

datatype error =
    DataValidationError
  | NotFound
  | AttributeError
  | InvalidOperation
  | BuildError
  | HTTPException nat string

definition bind_sum :: "error + 'a \<Rightarrow> ('a \<Rightarrow> error + 'b) \<Rightarrow> error + 'b" where
  "bind_sum r f = (case r of Inl e \<Rightarrow> Inl e | Inr v \<Rightarrow> f v)"

subsection \<open>Letter case\<close>

text \<open>\<^verbatim>\<open>str.upper()\<close> and \<^verbatim>\<open>str.lower()\<close> on ASCII text.\<close>

definition upper :: "string \<Rightarrow> string" where
  "upper s = map (\<lambda>c. if 97 \<le> (of_char c :: nat) \<and> (of_char c :: nat) \<le> 122
                        then char_of ((of_char c :: nat) - 32) else c) s"

definition lower :: "string \<Rightarrow> string" where
  "lower s = map (\<lambda>c. if 65 \<le> (of_char c :: nat) \<and> (of_char c :: nat) \<le> 90
                        then char_of ((of_char c :: nat) + 32) else c) s"

subsection \<open>Text to decimal\<close>

text \<open>\<^verbatim>\<open>str.strip()\<close>: the characters for which \<^verbatim>\<open>isspace\<close> holds, which are U+0009 to
  U+000D, U+001C to U+0020, U+0085 and U+00A0.\<close>

definition is_space :: "char \<Rightarrow> bool" where
  "is_space c \<longleftrightarrow>
     (let n = (of_char c :: nat)
      in (9 \<le> n \<and> n \<le> 13) \<or> (28 \<le> n \<and> n \<le> 32) \<or> n = 133 \<or> n = 160)"

definition strip :: "string \<Rightarrow> string" where
  "strip s = rev (dropWhile is_space (rev (dropWhile is_space s)))"

definition split_sign :: "string \<Rightarrow> bool \<times> string" where
  "split_sign s =
     (case s of
        [] \<Rightarrow> (False, [])
      | c # r \<Rightarrow> if c = CHR ''-'' then (True, r) else if c = CHR ''+'' then (False, r) else (False, s))"

text \<open>The optional exponent \<^verbatim>\<open>(E(?P<exp>[-+]?\d+))?\<close> followed by the end of the text;
  an absent exponent is 0.\<close>

definition parse_exp :: "string \<Rightarrow> int option" where
  "parse_exp s =
     (case s of
        [] \<Rightarrow> Some 0
      | c # r \<Rightarrow>
          if c = CHR ''E'' \<or> c = CHR ''e'' then
            (let (neg, ds) = split_sign r
             in if ds \<noteq> [] \<and> list_all is_digit ds
                then Some (if neg then - int (int_digits ds) else int (int_digits ds))
                else None)
          else None)"

text \<open>
  The numeric-string branch of \<^verbatim>\<open>Decimal(value)\<close>, read exactly:
  \<^verbatim>\<open>
  m = _parser(value.strip().replace("_", ""))
  if m is None: raise InvalidOperation        # ConversionSyntax
  self._sign = 1 if m.group('sign') == "-" else 0
  intpart = m.group('int'); fracpart = m.group('frac') or ''
  exp = int(m.group('exp') or '0')
  self._int = str(int(intpart+fracpart)); self._exp = exp - len(fracpart)
  \<close>
  where the parser is
  \<^verbatim>\<open>[-+]? (?=\d|\.\d) \d* (\.\d*)? (E[-+]?\d+)? \Z\<close>, letters in either case. This is
  the reading of ``a text representation of a decimal'' that the record layer's price
  filter and \<^verbatim>\<open>deserialize\<close> are modelled with: every decimal number has a text, whatever
  its exponent, and the text reads back as the number.
\<close>

definition decimal_of_text :: "string \<Rightarrow> error + decimal" where
  "decimal_of_text val =
     (let s = filter (\<lambda>c. c \<noteq> CHR ''_'') (strip val);
          (sgn, r1) = split_sign s;
          intpart = takeWhile is_digit r1;
          r2 = dropWhile is_digit r1;
          fracpart = (case r2 of [] \<Rightarrow> []
                      | c # r \<Rightarrow> if c = CHR ''.'' then takeWhile is_digit r else []);
          r3 = (case r2 of [] \<Rightarrow> []
                | c # r \<Rightarrow> if c = CHR ''.'' then dropWhile is_digit r else r2)
      in if intpart = [] \<and> fracpart = [] then Inl InvalidOperation
         else (case parse_exp r3 of
                 None \<Rightarrow> Inl InvalidOperation
               | Some e \<Rightarrow>
                   Inr (Dec sgn (int_digits (intpart @ fracpart)) (e - int (length fracpart)))))"

text \<open>
  The values of \<^verbatim>\<open>decimal.Decimal\<close>: a finite number, an infinity with its sign, or a NaN
  with its sign, whether it is signaling, and its payload (0 when it has none).
\<close>

datatype Decimal_value = Finite decimal | Infinity bool | NaN bool bool nat

text \<open>
  The limits of CPython's \<^verbatim>\<open>decimal\<close> module on a 64-bit build, \<^verbatim>\<open>decimal.MAX_PREC\<close>,
  \<^verbatim>\<open>decimal.MAX_EMAX\<close> and \<^verbatim>\<open>decimal.MIN_ETINY\<close>: a finite \<^verbatim>\<open>Decimal\<close> has at most
  \<^verbatim>\<open>MAX_PREC\<close> digits, its adjusted exponent (exponent + digits - 1) is at most \<^verbatim>\<open>MAX_EMAX\<close>
  and its exponent at least \<^verbatim>\<open>MIN_ETINY\<close>. \<open>in_range\<close> is the two limits on the exponent.
\<close>

definition MAX_PREC :: int where
  "MAX_PREC = 999999999999999999"

definition MAX_EMAX :: int where
  "MAX_EMAX = 999999999999999999"

definition MIN_ETINY :: int where
  "MIN_ETINY = - 1999999999999999997"

definition in_range :: "decimal \<Rightarrow> bool" where
  "in_range d =
     (let digits = int (length (str_nat (dcoeff d)))
      in MIN_ETINY \<le> dexp d \<and> dexp d + digits - 1 \<le> MAX_EMAX)"

text \<open>
  \<^verbatim>\<open>Decimal(value)\<close> for a text, as CPython constructs it. After the sign, \<^verbatim>\<open>Inf\<close> or
  \<^verbatim>\<open>Infinity\<close> is an infinity and \<^verbatim>\<open>NaN\<close> or \<^verbatim>\<open>sNaN\<close>, followed by digits or nothing, is a
  NaN, letters in either case. A numeric string is read exactly, and the number is
  constructed only if its exponent is within the limits: the conversion of a number
  beyond them is not exact, and the constructor raises \<^verbatim>\<open>InvalidOperation\<close>, as for a
  text that is none of these. A coefficient, a fraction or a payload of more than
  \<^verbatim>\<open>MAX_PREC\<close> digits is refused as well; no text in memory is that long, and here a text
  of more than \<^verbatim>\<open>MAX_PREC\<close> characters is refused whatever it holds.
\<close>

definition Decimal :: "string \<Rightarrow> error + Decimal_value" where
  "Decimal val =
     (if int (length val) > MAX_PREC then Inl InvalidOperation
      else
        (let (sgn, r) = split_sign (filter (\<lambda>c. c \<noteq> CHR ''_'') (strip val));
             w = lower r
         in if w = ''inf'' \<or> w = ''infinity'' then Inr (Infinity sgn)
            else if take 3 w = ''nan'' \<and> list_all is_digit (drop 3 w)
              then Inr (NaN sgn False (int_digits (drop 3 w)))
            else if take 4 w = ''snan'' \<and> list_all is_digit (drop 4 w)
              then Inr (NaN sgn True (int_digits (drop 4 w)))
            else (case decimal_of_text val of
                    Inl e \<Rightarrow> Inl e
                  | Inr d \<Rightarrow> if in_range d then Inr (Finite d) else Inl InvalidOperation)))"

text \<open>\<^verbatim>\<open>Decimal(n)\<close> and \<^verbatim>\<open>str(n)\<close> for an integer.\<close>

definition Decimal_int :: "int \<Rightarrow> decimal" where
  "Decimal_int n = Dec (n < 0) (nat \<bar>n\<bar>) 0"

definition str_int :: "int \<Rightarrow> string" where
  "str_int n = (if n < 0 then CHR ''-'' # str_nat (nat (- n)) else str_nat (nat n))"

subsection \<open>JSON values\<close>

text \<open>
  What \<^verbatim>\<open>request.get_json()\<close> returns and \<^verbatim>\<open>jsonify\<close> accepts. A Python \<^verbatim>\<open>dict\<close> is a
  list of key-value pairs in insertion order, looked up with \<open>map_of\<close>. A Python
  \<^verbatim>\<open>float\<close> is carried as its exact decimal expansion, which is what \<^verbatim>\<open>Decimal(x)\<close>
  returns for it.
\<close>

datatype json =
    JNull
  | JBool bool
  | JInt int
  | JFloat decimal
  | JStr string
  | JList "json list"
  | JObj "(string \<times> json) list"

subsection \<open>The Category enumeration\<close>

text \<open>
  Modelled from the spec: the enumeration \<^verbatim>\<open>Category\<close> of \<^verbatim>\<open>service/models.py\<close>, ``a fixed
  closed set of category labels''. Its declaration is not part of the sources, so the
  list of its member names is a parameter \<open>cats\<close> of every function that looks a member
  up. A member is identified by its name (\<^verbatim>\<open>Category.CLOTHS.name == "CLOTHS"\<close>).
\<close>

datatype Category = Member (member_name: string)

text \<open>\<^verbatim>\<open>getattr(Category, name)\<close>: the member of that name, or \<^verbatim>\<open>AttributeError\<close>.\<close>

definition getattr_Category :: "string list \<Rightarrow> string \<Rightarrow> error + Category" where
  "getattr_Category cats n = (if n \<in> set cats then Inr (Member n) else Inl AttributeError)"

subsection \<open>The Product record\<close>

text \<open>
  Modelled from the spec: the class \<^verbatim>\<open>Product\<close> of \<^verbatim>\<open>service/models.py\<close>, which is not part
  of the sources. ``\<^verbatim>\<open>id\<close> (integer, server-assigned), \<^verbatim>\<open>name\<close> (text, required),
  \<^verbatim>\<open>description\<close> (text, optional), \<^verbatim>\<open>price\<close> (decimal, required), \<^verbatim>\<open>available\<close> (boolean,
  required), \<^verbatim>\<open>category\<close> (enumerated value, required)''; \<^verbatim>\<open>id\<close> is \<^verbatim>\<open>None\<close> before the
  record is persisted.
\<close>

record product =
  pid :: "int option"
  name :: string
  description :: "string option"
  price :: decimal
  available :: bool
  category :: Category

text \<open>
  \<^verbatim>\<open>Product()\<close>: a record no field of which has been assigned. It has no id and no
  description; \<^verbatim>\<open>deserialize\<close> assigns each required field or fails, so the values the
  required fields have here are never read.
\<close>

definition Product_new :: product where
  "Product_new =
     \<lparr>pid = None, name = [], description = None, price = Dec False 0 0,
      available = False, category = Member []\<rparr>"

text \<open>
  Modelled from the spec: \<^verbatim>\<open>Product.serialize\<close>. ``Converts between the record and a flat
  key-value representation with keys \<^verbatim>\<open>{id, name, description, price, available,
  category}\<close>. Category is serialized as its string name. Price is serialized as its
  decimal text form.''
\<close>

definition serialize :: "product \<Rightarrow> json" where
  "serialize p =
     JObj [(''id'', case pid p of None \<Rightarrow> JNull | Some i \<Rightarrow> JInt i),
           (''name'', JStr (name p)),
           (''description'', case description p of None \<Rightarrow> JNull | Some s \<Rightarrow> JStr s),
           (''price'', JStr (str_decimal (price p))),
           (''available'', JBool (available p)),
           (''category'', JStr (member_name (category p)))]"

text \<open>
  Modelled from the spec: \<^verbatim>\<open>Product.deserialize\<close>. ``\<^verbatim>\<open>deserialize\<close> fails with a validation
  error when: \<^verbatim>\<open>data\<close> is not a mapping, a required key is missing, \<^verbatim>\<open>available\<close> is
  present but not a boolean, or \<^verbatim>\<open>category\<close> does not match a known enumerated value'';
  a validation error is the error of a ``bad/missing input shape''. The required keys
  are those of the required fields; the keys \<^verbatim>\<open>id\<close> and \<^verbatim>\<open>description\<close> may be absent, and
  the record then keeps what it has. A price is read from its decimal text form or from
  a JSON number. A value of any other shape is a bad input shape.
\<close>

definition required :: "json option \<Rightarrow> error + json" where
  "required v = (case v of None \<Rightarrow> Inl DataValidationError | Some x \<Rightarrow> Inr x)"

definition json_text :: "json \<Rightarrow> error + string" where
  "json_text v = (case v of JStr s \<Rightarrow> Inr s | _ \<Rightarrow> Inl DataValidationError)"

definition json_price :: "json \<Rightarrow> error + decimal" where
  "json_price v =
     (case v of
        JStr s \<Rightarrow> (case decimal_of_text s of Inl e \<Rightarrow> Inl DataValidationError | Inr d \<Rightarrow> Inr d)
      | JInt n \<Rightarrow> Inr (Decimal_int n)
      | JFloat d \<Rightarrow> Inr d
      | _ \<Rightarrow> Inl DataValidationError)"

definition json_available :: "json \<Rightarrow> error + bool" where
  "json_available v = (case v of JBool b \<Rightarrow> Inr b | _ \<Rightarrow> Inl DataValidationError)"

definition json_category :: "string list \<Rightarrow> json \<Rightarrow> error + Category" where
  "json_category cats v =
     (case v of
        JStr s \<Rightarrow> (case getattr_Category cats s of Inl e \<Rightarrow> Inl DataValidationError
                    | Inr c \<Rightarrow> Inr c)
      | _ \<Rightarrow> Inl DataValidationError)"

definition json_description :: "string option \<Rightarrow> json option \<Rightarrow> error + string option" where
  "json_description cur v =
     (case v of
        None \<Rightarrow> Inr cur
      | Some JNull \<Rightarrow> Inr None
      | Some (JStr s) \<Rightarrow> Inr (Some s)
      | Some _ \<Rightarrow> Inl DataValidationError)"

definition json_id :: "int option \<Rightarrow> json option \<Rightarrow> error + int option" where
  "json_id cur v =
     (case v of
        None \<Rightarrow> Inr cur
      | Some JNull \<Rightarrow> Inr None
      | Some (JInt i) \<Rightarrow> Inr (Some i)
      | Some _ \<Rightarrow> Inl DataValidationError)"

definition deserialize :: "string list \<Rightarrow> product \<Rightarrow> json \<Rightarrow> error + product" where
  "deserialize cats self data =
     (case data of
        JObj kvs \<Rightarrow>
          bind_sum (json_id (pid self) (map_of kvs ''id'')) (\<lambda>i.
          bind_sum (bind_sum (required (map_of kvs ''name'')) json_text) (\<lambda>n.
          bind_sum (json_description (description self) (map_of kvs ''description'')) (\<lambda>d.
          bind_sum (bind_sum (required (map_of kvs ''price'')) json_price) (\<lambda>pr.
          bind_sum (bind_sum (required (map_of kvs ''available'')) json_available) (\<lambda>av.
          bind_sum (bind_sum (required (map_of kvs ''category'')) (json_category cats)) (\<lambda>c.
          Inr (self\<lparr>pid := i, name := n, description := d, price := pr,
                    available := av, category := c\<rparr>)))))))
      | _ \<Rightarrow> Inl DataValidationError)"

subsection \<open>The store\<close>

text \<open>
  Modelled from the spec: the persistence operations of \<^verbatim>\<open>Product\<close>. The relational
  table is the list of its rows, oldest first; an operation that writes returns the new
  table.

  \<^item> ``\<^verbatim>\<open>create()\<close>: inserts a new row; assigns and returns a fresh unique \<^verbatim>\<open>id\<close>.'' The fresh
    id is one more than the largest id of the table. Every value of the record type has
    its required fields, so the store does not reject the write.
  \<^item> ``\<^verbatim>\<open>update()\<close>: given a record with a non-null \<^verbatim>\<open>id\<close>, persists its current field values
    to the matching row; fails with a validation error if \<^verbatim>\<open>id\<close> is \<^verbatim>\<open>None\<close>; fails with a
    not-found condition if \<^verbatim>\<open>id\<close> does not match any row.''
  \<^item> ``\<^verbatim>\<open>delete()\<close>: removes the row matching the record's \<^verbatim>\<open>id\<close>; no-op-safe if already
    absent.''
  \<^item> ``\<^verbatim>\<open>all()\<close>: returns every row as a list of records.''
  \<^item> ``\<^verbatim>\<open>find(id)\<close>: returns the record matching \<^verbatim>\<open>id\<close> or a null/empty result if absent.''
  \<^item> ``\<^verbatim>\<open>find_by_name(name)\<close>, \<^verbatim>\<open>find_by_category(category)\<close>,
    \<^verbatim>\<open>find_by_availability(bool)\<close>, \<^verbatim>\<open>find_by_price(decimal)\<close>: exact-match filters returning
    zero or more matching records; \<^verbatim>\<open>price\<close> filter must accept and normalize a text
    representation of a decimal before comparing.''
\<close>

type_synonym store = "product list"

definition fresh_id :: "store \<Rightarrow> int" where
  "fresh_id db = 1 + fold (\<lambda>p m. case pid p of None \<Rightarrow> m | Some i \<Rightarrow> max i m) db 0"

definition create :: "product \<Rightarrow> store \<Rightarrow> product \<times> store" where
  "create self db = (let p = self\<lparr>pid := Some (fresh_id db)\<rparr> in (p, db @ [p]))"

definition update :: "product \<Rightarrow> store \<Rightarrow> error + store" where
  "update self db =
     (case pid self of
        None \<Rightarrow> Inl DataValidationError
      | Some i \<Rightarrow>
          if list_ex (\<lambda>r. pid r = Some i) db
          then Inr (map (\<lambda>r. if pid r = Some i then self else r) db)
          else Inl NotFound)"

definition delete :: "product \<Rightarrow> store \<Rightarrow> store" where
  "delete self db = filter (\<lambda>r. pid r \<noteq> pid self) db"

definition Product_all :: "store \<Rightarrow> product list" where
  "Product_all db = db"

definition Product_find :: "int \<Rightarrow> store \<Rightarrow> product option" where
  "Product_find i db = List.find (\<lambda>r. pid r = Some i) db"

definition find_by_name :: "string \<Rightarrow> store \<Rightarrow> product list" where
  "find_by_name n db = filter (\<lambda>r. name r = n) db"

definition find_by_category :: "Category \<Rightarrow> store \<Rightarrow> product list" where
  "find_by_category c db = filter (\<lambda>r. category r = c) db"

definition find_by_availability :: "bool \<Rightarrow> store \<Rightarrow> product list" where
  "find_by_availability b db = filter (\<lambda>r. available r = b) db"

text \<open>
  The argument of \<^verbatim>\<open>find_by_price\<close> is a \<^verbatim>\<open>Decimal\<close> or the text of a decimal;
  \<open>Price_decimal d\<close> is the argument that is the decimal number \<open>d\<close>. A price is a number:
  no price equals an infinity or a NaN.
\<close>

datatype price_arg = Price_text string | Price_value Decimal_value


definition price_is :: "decimal \<Rightarrow> Decimal_value \<Rightarrow> bool" where
  "price_is p v = (case v of Finite d \<Rightarrow> dec_eq p d | _ \<Rightarrow> False)"

definition find_by_price :: "price_arg \<Rightarrow> store \<Rightarrow> error + product list" where
  "find_by_price pr db =
     bind_sum (case pr of
                 Price_text s \<Rightarrow> bind_sum (decimal_of_text s) (\<lambda>d. Inr (Finite d))
               | Price_value v \<Rightarrow> Inr v)
       (\<lambda>price_value. Inr (filter (\<lambda>r. price_is (price r) price_value) db))"

subsection \<open>Requests and responses\<close>

text \<open>
  What the handlers read of Flask's \<^verbatim>\<open>request\<close>: the headers (looked up by the header's
  canonical name), the query parameters \<^verbatim>\<open>request.args\<close> (\<^verbatim>\<open>args.get(k)\<close> is the first value
  given for \<^verbatim>\<open>k\<close>, or \<^verbatim>\<open>None\<close>), the body as \<^verbatim>\<open>get_json()\<close> parses it (\<open>None\<close> when the body
  is not JSON text), and the scheme and host that \<^verbatim>\<open>url_for(..., _external=True)\<close> puts in
  front of a path.
\<close>

record request =
  headers :: "(string \<times> string) list"
  args :: "(string \<times> string) list"
  json_body :: "json option"
  server :: string

text \<open>A view's return value \<^verbatim>\<open>(body, status, headers)\<close>.\<close>

record response =
  body :: json
  status :: nat
  resp_headers :: "(string \<times> string) list"

type_synonym result = "(error + response) \<times> store"

definition args_get :: "request \<Rightarrow> string \<Rightarrow> string option" where
  "args_get req k = map_of (args req) k"

text \<open>\<^verbatim>\<open>request.get_json()\<close> once the content type has been checked: a body that does not
  parse is Flask's \<^verbatim>\<open>BadRequest\<close>.\<close>

definition get_json :: "request \<Rightarrow> error + json" where
  "get_json req =
     (case json_body req of
        None \<Rightarrow> Inl (HTTPException 400
          ''The browser (or proxy) sent a request that this server could not understand.'')
      | Some data \<Rightarrow> Inr data)"

text \<open>The f-string \<^verbatim>\<open>f"Product with id '{product_id}' was not found."\<close>.\<close>

definition not_found_message :: "nat \<Rightarrow> string" where
  "not_found_message product_id =
     ''Product with id '' @ [CHR 0x27] @ str_nat product_id @ [CHR 0x27] @ '' was not found.''"

text \<open>
  \<^verbatim>\<open>url_for("get_a_product", product_id=i, _external=True)\<close> builds the URL of the rule
  \<^verbatim>\<open>/products/<int:product_id>\<close>; a value \<^verbatim>\<open>None\<close> cannot be built. \<open>route_product_id\<close> is
  that rule read the other way: the \<^verbatim>\<open>int\<close> converter matches \<^verbatim>\<open>\d+\<close>.
\<close>

definition url_for_get_a_product :: "request \<Rightarrow> int option \<Rightarrow> error + string" where
  "url_for_get_a_product req product_id =
     (case product_id of
        None \<Rightarrow> Inl BuildError
      | Some i \<Rightarrow> Inr (server req @ ''/products/'' @ str_int i))"

definition route_product_id :: "request \<Rightarrow> string \<Rightarrow> nat option" where
  "route_product_id req url =
     (let pre = server req @ ''/products/''; ds = drop (length pre) url
      in if take (length pre) url = pre \<and> ds \<noteq> [] \<and> list_all is_digit ds
         then Some (int_digits ds) else None)"

subsection \<open>The request handlers of \<^verbatim>\<open>service/routes.py\<close>\<close>

definition check_content_type :: "request \<Rightarrow> string \<Rightarrow> error + unit" where
  "check_content_type req content_type =
     (case map_of (headers req) ''Content-Type'' of
        None \<Rightarrow> Inl (HTTPException 415 (''Content-Type must be '' @ content_type))
      | Some v \<Rightarrow>
          if v = content_type then Inr ()
          else Inl (HTTPException 415 (''Content-Type must be '' @ content_type)))"

definition create_products :: "string list \<Rightarrow> request \<Rightarrow> store \<Rightarrow> result" where
  "create_products cats req db =
     (case check_content_type req ''application/json'' of
        Inl e \<Rightarrow> (Inl e, db)
      | Inr _ \<Rightarrow>
     (case get_json req of
        Inl e \<Rightarrow> (Inl e, db)
      | Inr data \<Rightarrow>
     (case deserialize cats Product_new data of
        Inl e \<Rightarrow> (Inl e, db)
      | Inr product0 \<Rightarrow>
     (let (product, db') = create product0 db;
          message = serialize product
      in case url_for_get_a_product req (pid product) of
           Inl e \<Rightarrow> (Inl e, db')
         | Inr location_url \<Rightarrow>
             (Inr \<lparr>body = message, status = 201,
                   resp_headers = [(''Location'', location_url)]\<rparr>, db')))))"

definition list_products :: "string list \<Rightarrow> request \<Rightarrow> store \<Rightarrow> result" where
  "list_products cats req db =
     (let product_name = args_get req ''name'';
          category_name = args_get req ''category'';
          product_available = args_get req ''available'';
          product_price = args_get req ''price'';
          products =
            (case product_name of
               Some (c # cs) \<Rightarrow> Inr (find_by_name (c # cs) db)
             | _ \<Rightarrow>
            (case category_name of
               Some (c # cs) \<Rightarrow>
                 bind_sum (getattr_Category cats (upper (c # cs)))
                   (\<lambda>category. Inr (find_by_category category db))
             | _ \<Rightarrow>
            (case product_available of
               Some (c # cs) \<Rightarrow>
                 (let available_value = (lower (c # cs) \<in> set [''true'', ''yes'', ''1''])
                  in Inr (find_by_availability available_value db))
             | _ \<Rightarrow>
            (case product_price of
               Some (c # cs) \<Rightarrow>
                 bind_sum (Decimal (c # cs))
                   (\<lambda>d. find_by_price (Price_value d) db)
             | _ \<Rightarrow> Inr (Product_all db)))))
      in case products of
           Inl e \<Rightarrow> (Inl e, db)
         | Inr ps \<Rightarrow> (Inr \<lparr>body = JList (map serialize ps), status = 200, resp_headers = []\<rparr>, db))"

definition get_a_product :: "nat \<Rightarrow> store \<Rightarrow> result" where
  "get_a_product product_id db =
     (case Product_find (int product_id) db of
        None \<Rightarrow> (Inl (HTTPException 404 (not_found_message product_id)), db)
      | Some product \<Rightarrow>
          (Inr \<lparr>body = serialize product, status = 200, resp_headers = []\<rparr>, db))"

definition update_a_product :: "string list \<Rightarrow> nat \<Rightarrow> request \<Rightarrow> store \<Rightarrow> result" where
  "update_a_product cats product_id req db =
     (case check_content_type req ''application/json'' of
        Inl e \<Rightarrow> (Inl e, db)
      | Inr _ \<Rightarrow>
     (case Product_find (int product_id) db of
        None \<Rightarrow> (Inl (HTTPException 404 (not_found_message product_id)), db)
      | Some product0 \<Rightarrow>
     (case get_json req of
        Inl e \<Rightarrow> (Inl e, db)
      | Inr data \<Rightarrow>
     (case deserialize cats product0 data of
        Inl e \<Rightarrow> (Inl e, db)
      | Inr product1 \<Rightarrow>
     (let product = product1\<lparr>pid := Some (int product_id)\<rparr>
      in case update product db of
           Inl e \<Rightarrow> (Inl e, db)
         | Inr db' \<Rightarrow>
             (Inr \<lparr>body = serialize product, status = 200, resp_headers = []\<rparr>, db'))))))"

definition delete_a_product :: "nat \<Rightarrow> store \<Rightarrow> result" where
  "delete_a_product product_id db =
     (case Product_find (int product_id) db of
        Some product \<Rightarrow>
          (Inr \<lparr>body = JObj [(''message'', JStr ''Product deleted.'')], status = 200,
                resp_headers = []\<rparr>, delete product db)
      | None \<Rightarrow>
          (Inr \<lparr>body = JObj [(''message'', JStr ''Product with given ID not found.'')],
                status = 404, resp_headers = []\<rparr>, db))"

subsection \<open>The listing contract, in the specification's words\<close>

text \<open>
  ``Optional query filters \<^verbatim>\<open>name\<close>, \<^verbatim>\<open>category\<close>, \<^verbatim>\<open>available\<close>, \<^verbatim>\<open>price\<close>, applied in that
  precedence (first present filter wins; only one filter is ever applied even if several
  are supplied); with none present, returns all records.'' A filter is present when the
  query gives it a value that is not the empty text. Each filter is an exact match on
  its field: the category whose name is the value in upper case, the availability that
  the value spells, the price that the value is the text of.
\<close>

definition filter_precedence :: "string list" where
  "filter_precedence = [''name'', ''category'', ''available'', ''price'']"

definition present :: "request \<Rightarrow> string \<Rightarrow> bool" where
  "present req k = (case args_get req k of Some (c # cs) \<Rightarrow> True | _ \<Rightarrow> False)"

definition first_present :: "request \<Rightarrow> (string \<times> string) option" where
  "first_present req =
     (case filter (present req) filter_precedence of
        [] \<Rightarrow> None
      | k # _ \<Rightarrow> (case args_get req k of None \<Rightarrow> None | Some v \<Rightarrow> Some (k, v)))"

definition spec_matches :: "string \<Rightarrow> string \<Rightarrow> product \<Rightarrow> bool" where
  "spec_matches k v r =
     (if k = ''name'' then name r = v
      else if k = ''category'' then member_name (category r) = upper v
      else if k = ''available'' then available r = (lower v \<in> {''true'', ''yes'', ''1''})
      else (case Decimal v of Inl e \<Rightarrow> False | Inr d \<Rightarrow> price_is (price r) d))"

definition spec_selected :: "request \<Rightarrow> store \<Rightarrow> product list" where
  "spec_selected req db =
     (case first_present req of
        None \<Rightarrow> db
      | Some (k, v) \<Rightarrow> filter (spec_matches k v) db)"

text \<open>The value of the winning filter can be converted: a category value names a member
  of the enumeration, a price value is a text that \<^verbatim>\<open>Decimal\<close> accepts.\<close>

definition converts :: "string list \<Rightarrow> request \<Rightarrow> bool" where
  "converts cats req =
     (case first_present req of
        None \<Rightarrow> True
      | Some (k, v) \<Rightarrow>
          (k = ''category'' \<longrightarrow> upper v \<in> set cats) \<and>
          (k = ''price'' \<longrightarrow> (case Decimal v of Inl e \<Rightarrow> False | Inr d \<Rightarrow> True)))"

text \<open>The request in which every filter given the empty text is not given at all.\<close>

definition without_empty :: "request \<Rightarrow> request" where
  "without_empty req =
     req\<lparr>args := filter (\<lambda>(k, v). args_get req k \<noteq> Some []) (args req)\<rparr>"

text \<open>A filter is unset when the query does not give it or gives it the empty text.\<close>

definition unset :: "request \<Rightarrow> string \<Rightarrow> bool" where
  "unset req k \<longleftrightarrow> args_get req k = None \<or> args_get req k = Some []"

text \<open>
  The answer of \<^verbatim>\<open>list_products\<close> once the records are selected: the list of the
  serialized records with 200, the store as it was; an exception raised by the
  selection escapes the handler.
\<close>

definition listing :: "error + product list \<Rightarrow> store \<Rightarrow> result" where
  "listing products db =
     (case products of
        Inl e \<Rightarrow> (Inl e, db)
      | Inr ps \<Rightarrow>
          (Inr \<lparr>body = JList (map serialize ps), status = 200, resp_headers = []\<rparr>, db))"

subsection \<open>Example data\<close>

text \<open>
  The product of \<^verbatim>\<open>test_create_a_product\<close>, stored under id 1, a second product, an
  enumeration with the two member names the tests use, and the body of the
  specification's creation scenario.
\<close>

definition example_categories :: "string list" where
  "example_categories = [''UNKNOWN'', ''CLOTHS'']"

definition fedora :: product where
  "fedora =
     \<lparr>pid = Some 1, name = ''Fedora'', description = Some ''A red hat'',
      price = Dec False 1250 (- 2), available = True, category = Member ''CLOTHS''\<rparr>"

definition kettle :: product where
  "kettle =
     \<lparr>pid = Some 2, name = ''kettle'', description = None,
      price = Dec False 1999 (- 2), available = False, category = Member ''UNKNOWN''\<rparr>"

definition fedora_body :: json where
  "fedora_body =
     JObj [(''name'', JStr ''Fedora''), (''price'', JFloat (Dec False 125 (- 1))),
           (''available'', JBool True), (''category'', JStr ''CLOTHS'')]"

definition json_request :: "(string \<times> string) list \<Rightarrow> json option \<Rightarrow> request" where
  "json_request query data =
     \<lparr>headers = [(''Content-Type'', ''application/json'')], args = query,
      json_body = data, server = ''http://localhost''\<rparr>"

section \<open>Properties\<close>

subsection \<open>The text of a decimal reads back as the decimal\<close>

text \<open>
  \<^verbatim>\<open>Decimal(str(d))\<close> is \<open>d\<close>, representation included: the digits of the coefficient
  read back as the coefficient, and the place of the point and the exponent part give
  back the exponent.
\<close>

lemma digit_char_ok: "n < 10 \<Longrightarrow> is_digit (digit_char n) \<and> digit_val (digit_char n) = n"
  by (simp add: is_digit_def digit_char_def digit_val_def)

lemma str_nat_digits: "list_all is_digit (str_nat n)"
proof (induction n rule: str_nat.induct)
  case (1 n)
  then show ?case
    by (subst str_nat.simps) (simp add: digit_char_ok)
qed

lemma str_nat_nonempty: "str_nat n \<noteq> []"
  by (subst str_nat.simps) simp

lemma int_digits_snoc: "int_digits (ds @ [c]) = 10 * int_digits ds + digit_val c"
  by (simp add: int_digits_def)

lemma int_digits_str_nat: "int_digits (str_nat n) = n"
proof (induction n rule: str_nat.induct)
  case (1 n)
  show ?case
  proof (cases "n < 10")
    case True
    then show ?thesis
      by (subst str_nat.simps) (simp add: int_digits_def digit_char_ok)
  next
    case False
    with 1 show ?thesis
      by (subst str_nat.simps) (simp add: int_digits_snoc digit_char_ok)
  qed
qed

lemma digits_split:
  assumes "list_all is_digit ds" and "r = [] \<or> \<not> is_digit (hd r)"
  shows "takeWhile is_digit (ds @ r) = ds" and "dropWhile is_digit (ds @ r) = r"
proof -
  have a: "\<forall>c\<in>set ds. is_digit c" using assms(1) by (simp add: list_all_iff)
  have b: "takeWhile is_digit r = []" "dropWhile is_digit r = r"
    using assms(2) by (cases r; simp)+
  show "takeWhile is_digit (ds @ r) = ds" using a b by simp
  show "dropWhile is_digit (ds @ r) = r" using a b by simp
qed

lemma int_digits_zeros: "int_digits (replicate k CHR ''0'' @ ds) = int_digits ds"
proof -
  have "foldl (\<lambda>a c. 10 * a + digit_val c) 0 (replicate k CHR ''0'') = 0"
    by (induction k) (simp_all add: digit_val_def)
  then show ?thesis by (simp add: int_digits_def)
qed

lemma strip_clean:
  assumes "\<forall>c\<in>set v. \<not> is_space c \<and> c \<noteq> CHR ''_''"
  shows "filter (\<lambda>c. c \<noteq> CHR ''_'') (strip v) = v"
proof -
  have d: "\<And>xs. (\<forall>c\<in>set xs. \<not> is_space c) \<Longrightarrow> dropWhile is_space xs = xs"
    by (case_tac xs) simp_all
  have "strip v = v" using assms by (simp add: strip_def d)
  then show ?thesis using assms by simp
qed

lemma parse_exp_str_plus_d: "parse_exp (CHR ''E'' # str_plus_d e) = Some e"
  by (simp add: parse_exp_def str_plus_d_def split_sign_def str_nat_nonempty str_nat_digits
      int_digits_str_nat)

lemma decimal_of_text_steps:
  assumes "filter (\<lambda>c. c \<noteq> CHR ''_'') (strip v) = v"
    and "split_sign v = (sg, r1)"
    and "takeWhile is_digit r1 = ip" and "dropWhile is_digit r1 = r2"
    and "(case r2 of [] \<Rightarrow> [] | c # r \<Rightarrow> if c = CHR ''.'' then takeWhile is_digit r else []) = fr"
    and "(case r2 of [] \<Rightarrow> [] | c # r \<Rightarrow> if c = CHR ''.'' then dropWhile is_digit r else r2) = r3"
    and "parse_exp r3 = Some e" and "ip \<noteq> []"
  shows "decimal_of_text v = Inr (Dec sg (int_digits (ip @ fr)) (e - int (length fr)))"
  unfolding decimal_of_text_def Let_def assms(1) assms(2) prod.case assms(3) assms(4) assms(5) assms(6)
    assms(7)
  using assms(8) by simp

lemma decimal_of_text_shape:
  assumes ip: "list_all is_digit ip" "ip \<noteq> []"
    and fr: "list_all is_digit fr"
    and dot: "dot = [] \<and> fr = [] \<or> dot = CHR ''.'' # fr"
    and ex: "ex = [] \<and> e = 0 \<or> ex = CHR ''E'' # str_plus_d e"
  shows "decimal_of_text ((if neg then ''-'' else []) @ ip @ dot @ ex)
         = Inr (Dec neg (int_digits (ip @ fr)) (e - int (length fr)))"
proof -
  let ?v = "(if neg then ''-'' else []) @ ip @ dot @ ex"
  have nd: "\<not> is_digit CHR ''-''" "\<not> is_digit CHR ''+''" "\<not> is_digit CHR ''.''"
    "\<not> is_digit CHR ''E''"
    by (simp_all add: is_digit_def)
  define ok where "ok c \<longleftrightarrow> \<not> is_space c \<and> c \<noteq> CHR ''_''" for c
  have dig: "\<And>c. is_digit c \<Longrightarrow> ok c"
    by (auto simp: ok_def is_digit_def is_space_def)
  have sp: "ok CHR ''-''" "ok CHR ''+''" "ok CHR ''.''" "ok CHR ''E''"
    by (simp_all add: ok_def is_space_def)
  have okn: "\<And>n. list_all ok (str_nat n)"
    using str_nat_digits dig by (metis (mono_tags, lifting) list_all_iff)
  have plus: "list_all ok (str_plus_d e)"
    using okn sp by (simp add: str_plus_d_def)
  have exset: "list_all ok ex"
  proof (cases "ex = []")
    case True then show ?thesis by simp
  next
    case False
    then have "ex = CHR ''E'' # str_plus_d e" using ex by blast
    then show ?thesis using plus sp by simp
  qed
  have okip: "list_all ok ip" using ip(1) dig by (metis (mono_tags, lifting) list_all_iff)
  have okfr: "list_all ok fr" using fr(1) dig by (metis (mono_tags, lifting) list_all_iff)
  have okdot: "list_all ok dot" using dot okfr sp by auto
  have "list_all ok ?v" using okip okdot exset sp by simp
  then have clean: "\<forall>c\<in>set ?v. \<not> is_space c \<and> c \<noteq> CHR ''_''"
    unfolding list_all_iff ok_def .
  have s: "filter (\<lambda>c. c \<noteq> CHR ''_'') (strip ?v) = ?v"
    by (rule strip_clean [OF clean])
  have hdip: "is_digit (hd ip)" using ip by (cases ip) simp_all
  have sign: "split_sign ?v = (neg, ip @ dot @ ex)"
    using hdip ip(2) nd by (cases ip) (auto simp: split_sign_def)
  have r2: "ex = [] \<or> \<not> is_digit (hd ex)" using ex nd by auto
  have r1: "dot @ ex = [] \<or> \<not> is_digit (hd (dot @ ex))"
    using dot r2 nd by auto
  have tk: "takeWhile is_digit (ip @ dot @ ex) = ip"
    and dr: "dropWhile is_digit (ip @ dot @ ex) = dot @ ex"
    using digits_split [OF ip(1) r1] by simp_all
  have pe: "parse_exp ex = Some e"
    using ex parse_exp_str_plus_d by (auto simp: parse_exp_def)
  have frs: "takeWhile is_digit (fr @ ex) = fr" "dropWhile is_digit (fr @ ex) = ex"
    using digits_split [OF fr r2] by simp_all
  have exdot: "ex = [] \<or> hd ex \<noteq> CHR ''.''" using ex by auto
  have f1: "(case dot @ ex of [] \<Rightarrow> []
             | c # r \<Rightarrow> if c = CHR ''.'' then takeWhile is_digit r else []) = fr"
    using dot frs exdot by (cases ex) auto
  have f2: "(case dot @ ex of [] \<Rightarrow> []
             | c # r \<Rightarrow> if c = CHR ''.'' then dropWhile is_digit r else dot @ ex) = ex"
    using dot frs exdot by (cases ex) auto
  show ?thesis
    by (rule decimal_of_text_steps [OF s sign tk dr f1 f2 pe ip(2)])
qed

lemma decimal_of_text_str_decimal: "decimal_of_text (str_decimal d) = Inr d"
proof (cases d)
  case (Dec neg c e)
  define ds where "ds = str_nat c"
  define L where "L = int (length ds)"
  define left where "left = e + L"
  define dp where "dp = (if e \<le> 0 \<and> left > - 6 then left else 1)"
  define e' where "e' = left - dp"
  define ex where "ex = (if left = dp then [] else CHR ''E'' # str_plus_d e')"
  have gen: "str_decimal d =
      (if neg then ''-'' else '''') @
      (if dp \<le> 0 then ''0''
       else if dp \<ge> L then ds @ replicate (nat (dp - L)) CHR ''0''
       else take (nat dp) ds) @
      (if dp \<le> 0 then ''.'' @ replicate (nat (- dp)) CHR ''0'' @ ds
       else if dp \<ge> L then '''' else ''.'' @ drop (nat dp) ds) @
      (if left = dp then '''' else ''E'' @ str_plus_d (left - dp))"
    by (simp only: str_decimal_def Let_def Dec decimal.sel ds_def L_def left_def dp_def)
  have dig: "list_all is_digit ds" and ne: "ds \<noteq> []" and val: "int_digits ds = c"
    by (simp_all add: ds_def str_nat_digits str_nat_nonempty int_digits_str_nat)
  have Lpos: "1 \<le> L" using ne by (cases ds) (simp_all add: L_def)
  have ex: "ex = [] \<and> e' = 0 \<or> ex = CHR ''E'' # str_plus_d e'"
    by (auto simp: ex_def e'_def)
  consider (small) "dp \<le> 0" | (whole) "0 < dp" "L \<le> dp" | (split) "0 < dp" "dp < L"
    by linarith
  then show ?thesis
  proof cases
    case small
    then have dpl: "dp = left" "e \<le> 0" by (auto simp: dp_def split: if_splits)
    define fr where "fr = replicate (nat (- dp)) CHR ''0'' @ ds"
    have s: "str_decimal d = (if neg then ''-'' else []) @ ''0'' @ (CHR ''.'' # fr) @ ex"
      unfolding gen using small by (simp add: fr_def ex_def e'_def)
    have z: "is_digit CHR ''0''" by (simp add: is_digit_def)
    have frd: "list_all is_digit fr" using dig z by (auto simp: fr_def list_all_iff)
    have v: "int_digits (''0'' @ fr) = c"
      using int_digits_zeros [of "Suc (nat (- dp))" ds] val by (simp add: fr_def)
    have l: "e' - int (length fr) = e"
      using small dpl by (simp add: e'_def fr_def left_def L_def)
    show ?thesis
      unfolding s using decimal_of_text_shape [of "''0''" fr "CHR ''.'' # fr" ex e' neg] frd ex z v l
      by (simp add: Dec)
  next
    case whole
    then have dpL: "dp = L" using Lpos by (auto simp: dp_def left_def split: if_splits)
    have s: "str_decimal d = (if neg then ''-'' else []) @ ds @ [] @ ex"
      unfolding gen using whole dpL by (simp add: ex_def e'_def)
    have l: "e' - int (length ([]::string)) = e"
      using dpL by (simp add: e'_def left_def)
    show ?thesis
      unfolding s using decimal_of_text_shape [of ds "[]" "[]" ex e' neg] dig ne ex val l
      by (simp add: Dec)
  next
    case split
    define ip where "ip = take (nat dp) ds"
    define fr where "fr = drop (nat dp) ds"
    have s: "str_decimal d = (if neg then ''-'' else []) @ ip @ (CHR ''.'' # fr) @ ex"
      unfolding gen using split by (simp add: ip_def fr_def ex_def e'_def)
    have ipd: "list_all is_digit ip" "ip \<noteq> []" and frd: "list_all is_digit fr"
      using dig ne split
      by (auto simp: ip_def fr_def list_all_iff L_def dest: in_set_takeD in_set_dropD)
    have v: "int_digits (ip @ fr) = c" using val by (simp add: ip_def fr_def)
    have l: "e' - int (length fr) = e"
      using split by (simp add: e'_def fr_def left_def L_def)
    show ?thesis
      unfolding s using decimal_of_text_shape [of ip fr "CHR ''.'' # fr" ex e' neg] ipd frd ex v l
      by (simp add: Dec)
  qed
qed

subsection \<open>\<^verbatim>\<open>Decimal\<close> at its limits\<close>

text \<open>
  The constructor accepts an adjusted exponent of 999999999999999999 and refuses the
  next, accepts an exponent of -1999999999999999997 and refuses the one below, reads the
  special values, and strips the whitespace above U+007F. A price beyond the limits
  makes \<^verbatim>\<open>list_products\<close> raise, and an infinite price matches no record.
\<close>

lemmas Decimal_unfold = Decimal_def decimal_of_text_def Let_def strip_def is_space_def
  split_sign_def lower_def char_of_def is_digit_def parse_exp_def int_digits_def digit_val_def
  in_range_def MAX_PREC_def MAX_EMAX_def MIN_ETINY_def str_nat.simps digit_char_def list_all_iff

lemma Decimal_largest_exponent:
  "Decimal ''1e999999999999999999'' = Inr (Finite (Dec False 1 999999999999999999))"
  "Decimal ''1e1000000000000000000'' = Inl InvalidOperation"
  "Decimal ''10e999999999999999998'' = Inr (Finite (Dec False 10 999999999999999998))"
  "Decimal ''10e999999999999999999'' = Inl InvalidOperation"
  "Decimal ''0e1000000000000000000'' = Inl InvalidOperation"
  by (simp_all add: Decimal_unfold)

lemma Decimal_smallest_exponent:
  "Decimal ''1e-1999999999999999997'' = Inr (Finite (Dec False 1 (- 1999999999999999997)))"
  "Decimal ''1e-1999999999999999998'' = Inl InvalidOperation"
  "Decimal ''0.1e-1999999999999999997'' = Inl InvalidOperation"
  by (simp_all add: Decimal_unfold)

lemma Decimal_special_values:
  "Decimal ''Infinity'' = Inr (Infinity False)"
  "Decimal ''-inf'' = Inr (Infinity True)"
  "Decimal ''NaN'' = Inr (NaN False False 0)"
  "Decimal ''-sNaN012'' = Inr (NaN True True 12)"
  "Decimal ''infinit'' = Inl InvalidOperation"
  by code_simp+

lemma Decimal_whitespace:
  "Decimal [CHR 0xA0, CHR ''1'', CHR ''_'', CHR ''0'', CHR 0x85] = Inr (Finite (Dec False 10 0))"
  "Decimal ''1 0'' = Inl InvalidOperation"
  by code_simp+

lemma list_products_price_beyond_limits:
  "list_products example_categories
     (json_request [(''price'', ''1e1000000000000000000'')] None) [fedora, kettle] =
     (Inl InvalidOperation, [fedora, kettle])"
  "\<not> converts cats (json_request [(''price'', ''1e1000000000000000000'')] None)"
  by (simp_all add: list_products_def converts_def first_present_def filter_precedence_def
      present_def args_get_def json_request_def bind_sum_def Decimal_unfold)

lemma list_products_price_infinite:
  "list_products example_categories
     (json_request [(''price'', ''Infinity'')] None) [fedora, kettle] =
     (Inr \<lparr>body = JList [], status = 200, resp_headers = []\<rparr>, [fedora, kettle])"
  by code_simp

subsection \<open>Rows, ids and URLs\<close>

lemma Product_find_None_iff: "Product_find i db = None \<longleftrightarrow> (\<forall>r\<in>set db. pid r \<noteq> Some i)"
  by (auto simp: Product_find_def find_None_iff)

lemma Product_find_delete:
  "Product_find i db = Some p \<Longrightarrow> Product_find i (delete p db) = None"
proof -
  assume "Product_find i db = Some p"
  then have "pid p = Some i"
    by (auto simp: Product_find_def find_Some_iff)
  then show ?thesis
    by (simp add: Product_find_None_iff delete_def)
qed

lemma fold_ids_ge:
  "m \<le> fold (\<lambda>p m. case pid p of None \<Rightarrow> m | Some i \<Rightarrow> max i m) db (m::int)"
proof (induction db arbitrary: m)
  case Nil
  show ?case by simp
next
  case (Cons r db)
  show ?case
  proof (cases "pid r")
    case None
    then show ?thesis using Cons [of m] by simp
  next
    case (Some i)
    then show ?thesis using Cons [of "max i m"] by simp
  qed
qed

lemma fold_ids_bound:
  "r \<in> set db \<Longrightarrow> pid r = Some i \<Longrightarrow>
   i \<le> fold (\<lambda>p m. case pid p of None \<Rightarrow> m | Some i \<Rightarrow> max i m) db (m::int)"
proof (induction db arbitrary: m)
  case Nil
  then show ?case by simp
next
  case (Cons a db)
  show ?case
  proof (cases "r = a")
    case True
    then show ?thesis
      using Cons.prems(2) fold_ids_ge [of "max i m" db] by simp
  next
    case False
    then have "r \<in> set db" using Cons.prems(1) by simp
    from Cons.IH [OF this Cons.prems(2)] show ?thesis by simp
  qed
qed

lemma fresh_id_positive: "1 \<le> fresh_id db"
  using fold_ids_ge [of 0 db] by (simp add: fresh_id_def)

lemma fresh_id_fresh: "Product_find (fresh_id db) db = None"
proof -
  have "\<And>r. r \<in> set db \<Longrightarrow> pid r \<noteq> Some (fresh_id db)"
  proof
    fix r assume "r \<in> set db" "pid r = Some (fresh_id db)"
    from fold_ids_bound [OF this, of 0] show False by (simp add: fresh_id_def)
  qed
  then show ?thesis by (simp add: Product_find_None_iff)
qed

lemma Product_find_append_new:
  "Product_find i db = None \<Longrightarrow> pid p = Some i \<Longrightarrow> Product_find i (db @ [p]) = Some p"
  by (induction db) (auto simp: Product_find_def split: if_splits)

lemma Product_find_replaced:
  "Product_find i db \<noteq> None \<Longrightarrow> pid p = Some i \<Longrightarrow>
   Product_find i (map (\<lambda>r. if pid r = Some i then p else r) db) = Some p"
  by (induction db) (auto simp: Product_find_def)

lemma route_url_for:
  "0 \<le> i \<Longrightarrow> route_product_id req (server req @ ''/products/'' @ str_int i) = Some (nat i)"
  by (simp add: route_product_id_def str_int_def Let_def str_nat_nonempty str_nat_digits
      int_digits_str_nat)

subsection \<open>The filter that wins\<close>

text \<open>
  \<^verbatim>\<open>list_products\<close> reads the request through \<open>first_present\<close> only.
\<close>

lemma Category_eq: "(c = Member n) = (member_name c = n)"
  by (cases c) simp

lemma present_Some: "present req k \<Longrightarrow> \<exists>c cs. args_get req k = Some (c # cs)"
  by (auto simp: present_def split: option.splits list.splits)

lemma absent_case:
  "\<not> present req k \<Longrightarrow> (case args_get req k of Some (c # cs) \<Rightarrow> A c cs | _ \<Rightarrow> B) = B"
  by (auto simp: present_def split: option.splits list.splits)

lemma unset_case:
  "unset req k \<Longrightarrow> (case args_get req k of Some (c # cs) \<Rightarrow> A c cs | _ \<Rightarrow> B) = B"
  by (auto simp: unset_def)

lemma winner_cases:
  obtains (name) v where "args_get req ''name'' = Some v" "v \<noteq> []"
      "first_present req = Some (''name'', v)"
  | (category) v where "\<not> present req ''name''" "args_get req ''category'' = Some v" "v \<noteq> []"
      "first_present req = Some (''category'', v)"
  | (available) v where "\<not> present req ''name''" "\<not> present req ''category''"
      "args_get req ''available'' = Some v" "v \<noteq> []"
      "first_present req = Some (''available'', v)"
  | (price) v where "\<not> present req ''name''" "\<not> present req ''category''"
      "\<not> present req ''available''" "args_get req ''price'' = Some v" "v \<noteq> []"
      "first_present req = Some (''price'', v)"
  | (none) "\<not> present req ''name''" "\<not> present req ''category''"
      "\<not> present req ''available''" "\<not> present req ''price''" "first_present req = None"
proof (cases "present req ''name''")
  case True
  then obtain c cs where "args_get req ''name'' = Some (c # cs)" using present_Some by blast
  then show ?thesis using True name [of "c # cs"]
    by (simp add: first_present_def filter_precedence_def)
next
  case n: False
  show ?thesis
  proof (cases "present req ''category''")
    case True
    then obtain c cs where "args_get req ''category'' = Some (c # cs)"
      using present_Some by blast
    then show ?thesis using True n category [of "c # cs"]
      by (simp add: first_present_def filter_precedence_def)
  next
    case c: False
    show ?thesis
    proof (cases "present req ''available''")
      case True
      then obtain a as where "args_get req ''available'' = Some (a # as)"
        using present_Some by blast
      then show ?thesis using True n c available [of "a # as"]
        by (simp add: first_present_def filter_precedence_def)
    next
      case a: False
      show ?thesis
      proof (cases "present req ''price''")
        case True
        then obtain x xs where "args_get req ''price'' = Some (x # xs)"
          using present_Some by blast
        then show ?thesis using True n c a price [of "x # xs"]
          by (simp add: first_present_def filter_precedence_def)
      next
        case False
        then show ?thesis using n c a none
          by (simp add: first_present_def filter_precedence_def)
      qed
    qed
  qed
qed

lemma spec_matches_simps:
  "spec_matches ''name'' v = (\<lambda>r. name r = v)"
  "spec_matches ''category'' v = (\<lambda>r. member_name (category r) = upper v)"
  "spec_matches ''available'' v = (\<lambda>r. available r = (lower v \<in> {''true'', ''yes'', ''1''}))"
  "spec_matches ''price'' v =
     (\<lambda>r. case Decimal v of Inl e \<Rightarrow> False | Inr d \<Rightarrow> price_is (price r) d)"
  by (simp_all add: fun_eq_iff spec_matches_def)

lemma list_products_winner:
  "list_products cats req db =
     (case (case first_present req of
              None \<Rightarrow> Inr db
            | Some (k, v) \<Rightarrow>
                if k = ''category''
                then bind_sum (getattr_Category cats (upper v)) (\<lambda>c. Inr (find_by_category c db))
                else if k = ''price''
                then bind_sum (Decimal v) (\<lambda>d. find_by_price (Price_value d) db)
                else Inr (filter (spec_matches k v) db)) of
        Inl e \<Rightarrow> (Inl e, db)
      | Inr ps \<Rightarrow>
          (Inr \<lparr>body = JList (map serialize ps), status = 200, resp_headers = []\<rparr>, db))"
proof (cases req rule: winner_cases)
  case (name v)
  then obtain c cs where v: "v = c # cs" by (cases v) auto
  show ?thesis
    using name unfolding v
    by (simp add: list_products_def Let_def find_by_name_def spec_matches_simps)
next
  case (category v)
  then obtain c cs where v: "v = c # cs" by (cases v) auto
  show ?thesis
    using category(2,4) unfolding v
    by (simp add: list_products_def Let_def absent_case [OF category(1)])
next
  case (available v)
  then obtain c cs where v: "v = c # cs" by (cases v) auto
  show ?thesis
    using available(3,5) unfolding v
    by (simp add: list_products_def Let_def absent_case [OF available(1)]
        absent_case [OF available(2)] find_by_availability_def spec_matches_simps)
next
  case (price v)
  then obtain c cs where v: "v = c # cs" by (cases v) auto
  show ?thesis
    using price(4,6) unfolding v
    by (simp add: list_products_def Let_def absent_case [OF price(1)]
        absent_case [OF price(2)] absent_case [OF price(3)])
next
  case none
  then show ?thesis
    by (simp add: list_products_def Let_def absent_case Product_all_def)
qed

lemma map_of_filter_keys:
  "map_of (filter (\<lambda>(k, v). P k) xs) k = (if P k then map_of xs k else None)"
  by (induction xs) auto

lemma args_get_without_empty:
  "args_get (without_empty req) k = (if args_get req k = Some [] then None else args_get req k)"
  using map_of_filter_keys [of "\<lambda>k. args_get req k \<noteq> Some []" "args req" k]
  by (simp add: without_empty_def args_get_def)

lemma present_without_empty: "present (without_empty req) k = present req k"
  by (simp add: present_def args_get_without_empty)

lemma first_present_without_empty: "first_present (without_empty req) = first_present req"
proof -
  let ?ks = "filter (present req) filter_precedence"
  have ks: "filter (present (without_empty req)) filter_precedence = ?ks"
    by (rule filter_cong) (simp_all add: present_without_empty)
  show ?thesis
  proof (cases ?ks)
    case Nil
    then show ?thesis by (simp add: first_present_def ks)
  next
    case (Cons k ks')
    then have "k \<in> set ?ks" by simp
    then have "present req k" by simp
    then have "args_get (without_empty req) k = args_get req k"
      by (auto simp: args_get_without_empty present_def)
    then show ?thesis using Cons by (simp add: first_present_def ks)
  qed
qed

subsection \<open>Serialization\<close>

text \<open>
  Claim C1. For every product whose category is a member of the enumeration (its
  availability is a boolean and its price a decimal by their types), deserializing the
  result of serializing it, onto any record, gives the product back, field by field.
\<close>

theorem deserialize_serialize:
  "member_name (category p) \<in> set cats \<Longrightarrow> deserialize cats self (serialize p) = Inr p"
proof -
  assume m: "member_name (category p) \<in> set cats"
  have i: "json_id (pid self) (Some (case pid p of None \<Rightarrow> JNull | Some i \<Rightarrow> JInt i)) = Inr (pid p)"
    by (simp add: json_id_def split: option.splits)
  have d: "json_description (description self)
             (Some (case description p of None \<Rightarrow> JNull | Some s \<Rightarrow> JStr s)) = Inr (description p)"
    by (simp add: json_description_def split: option.splits)
  have pr: "json_price (JStr (str_decimal (price p))) = Inr (price p)"
    by (simp add: json_price_def decimal_of_text_str_decimal)
  have c: "json_category cats (JStr (member_name (category p))) = Inr (category p)"
    using m by (simp add: json_category_def getattr_Category_def)
  have r: "self\<lparr>pid := pid p, name := name p, description := description p, price := price p,
             available := available p, category := category p\<rparr> = p"
    by simp
  show ?thesis
    by (simp add: serialize_def deserialize_def bind_sum_def required_def json_text_def
        json_available_def i d pr c)
qed

theorem deserialize_serialize_witness:
  "member_name (category fedora) \<in> set example_categories \<and>
   serialize fedora =
     JObj [(''id'', JInt 1), (''name'', JStr ''Fedora''), (''description'', JStr ''A red hat''),
           (''price'', JStr ''12.50''), (''available'', JBool True),
           (''category'', JStr ''CLOTHS'')] \<and>
   deserialize example_categories Product_new (serialize fedora) = Inr fedora"
proof -
  have h: "member_name (category fedora) \<in> set example_categories"
    by (simp add: fedora_def example_categories_def)
  have s: "serialize fedora =
     JObj [(''id'', JInt 1), (''name'', JStr ''Fedora''), (''description'', JStr ''A red hat''),
           (''price'', JStr ''12.50''), (''available'', JBool True),
           (''category'', JStr ''CLOTHS'')]"
    by code_simp
  from deserialize_serialize [OF h, of Product_new] h s show ?thesis by simp
qed

subsection \<open>Listing products\<close>

text \<open>
  Claim C2, as amended. For every \<^verbatim>\<open>GET /products\<close> request in which the value of the winning
  filter can be converted (a category value, in upper case, names a member of the
  enumeration; a price value is a text that \<^verbatim>\<open>Decimal\<close> accepts), the handler answers 200
  with the list of the serialized records that the specification selects: those matching
  the first of \<^verbatim>\<open>name\<close>, \<^verbatim>\<open>category\<close>, \<^verbatim>\<open>available\<close>, \<^verbatim>\<open>price\<close> that has a non-empty value,
  and only that one; all records when none has. The store is not changed.
\<close>

theorem list_products_precedence:
  assumes "converts cats req"
  shows "list_products cats req db =
     (Inr \<lparr>body = JList (map serialize (spec_selected req db)), status = 200,
           resp_headers = []\<rparr>, db)"
proof (cases "first_present req")
  case None
  then show ?thesis by (simp add: list_products_winner spec_selected_def)
next
  case (Some kv)
  obtain k v where kv: "kv = (k, v)" by (cases kv)
  have c: "k = ''category'' \<Longrightarrow> upper v \<in> set cats"
    and p: "k = ''price'' \<Longrightarrow> \<exists>d. Decimal v = Inr d"
    using assms Some kv by (auto simp: converts_def split: sum.splits)
  have cat: "k = ''category'' \<Longrightarrow>
      find_by_category (Member (upper v)) db = filter (spec_matches k v) db"
    by (simp add: find_by_category_def spec_matches_simps Category_eq)
  have pr: "\<And>d. k = ''price'' \<Longrightarrow> Decimal v = Inr d \<Longrightarrow>
      find_by_price (Price_value d) db = Inr (filter (spec_matches k v) db)"
    by (simp add: find_by_price_def bind_sum_def spec_matches_simps)
  show ?thesis
    using c p cat pr Some kv
    by (auto simp: list_products_winner spec_selected_def bind_sum_def getattr_Category_def)
qed

theorem list_products_precedence_witness:
  "converts example_categories
     (json_request [(''name'', ''''), (''category'', ''cloths''), (''price'', ''19.99'')] None) \<and>
   list_products example_categories
     (json_request [(''name'', ''''), (''category'', ''cloths''), (''price'', ''19.99'')] None)
     [fedora, kettle] =
     (Inr \<lparr>body = JList [serialize fedora], status = 200, resp_headers = []\<rparr>, [fedora, kettle]) \<and>
   converts example_categories (json_request [(''price'', '' 19.990 '')] None) \<and>
   list_products example_categories (json_request [(''price'', '' 19.990 '')] None)
     [fedora, kettle] =
     (Inr \<lparr>body = JList [serialize kettle], status = 200, resp_headers = []\<rparr>, [fedora, kettle])"
proof -
  let ?req = "json_request [(''name'', ''''), (''category'', ''cloths''), (''price'', ''19.99'')] None"
  let ?req2 = "json_request [(''price'', '' 19.990 '')] None"
  have h: "converts example_categories ?req" by code_simp
  have s: "spec_selected ?req [fedora, kettle] = [fedora]" by code_simp
  have d: "Decimal '' 19.990 '' = Inr (Finite (Dec False 19990 (- 3)))"
    by (simp add: Decimal_unfold)
  have h2: "converts example_categories ?req2"
    by (simp add: converts_def first_present_def filter_precedence_def present_def
        args_get_def json_request_def d)
  have s2: "spec_selected ?req2 [fedora, kettle] = [kettle]"
    by (simp add: spec_selected_def first_present_def filter_precedence_def present_def
        args_get_def json_request_def spec_matches_def d price_is_def dec_eq_def
        signed_coeff_def fedora_def kettle_def)
  from list_products_precedence [OF h, of "[fedora, kettle]"]
    list_products_precedence [OF h2, of "[fedora, kettle]"] h s h2 s2
  show ?thesis by simp
qed

theorem list_products_precedence_counterexample:
  "list_products example_categories (json_request [(''category'', ''bogus'')] None)
     [fedora, kettle] = (Inl AttributeError, [fedora, kettle])"
  by code_simp

text \<open>
  Claim C9. A query filter given the empty text is treated as absent. The handler
  answers a request as it answers the request without every such filter; and the filter
  applied is the first of \<^verbatim>\<open>name\<close>, \<^verbatim>\<open>category\<close>, \<^verbatim>\<open>available\<close>, \<^verbatim>\<open>price\<close> whose value is
  not empty, every filter before it being absent or empty: the name filter on its
  value, the category filter on the member named by the value in upper case, the
  availability filter on what the value spells, the price filter on the \<^verbatim>\<open>Decimal\<close> of
  the value. When every filter is absent or empty, all records are returned.
\<close>

theorem list_products_empty_as_absent:
  "(\<forall>k. args_get (without_empty req) k =
         (if args_get req k = Some [] then None else args_get req k)) \<and>
   list_products cats (without_empty req) db = list_products cats req db \<and>
   (\<forall>v. args_get req ''name'' = Some v \<and> v \<noteq> [] \<longrightarrow>
      list_products cats req db = listing (Inr (find_by_name v db)) db) \<and>
   (\<forall>v. unset req ''name'' \<and> args_get req ''category'' = Some v \<and> v \<noteq> [] \<longrightarrow>
      list_products cats req db =
        listing (bind_sum (getattr_Category cats (upper v))
                   (\<lambda>category. Inr (find_by_category category db))) db) \<and>
   (\<forall>v. unset req ''name'' \<and> unset req ''category'' \<and>
        args_get req ''available'' = Some v \<and> v \<noteq> [] \<longrightarrow>
      list_products cats req db =
        listing (Inr (find_by_availability (lower v \<in> set [''true'', ''yes'', ''1'']) db)) db) \<and>
   (\<forall>v. unset req ''name'' \<and> unset req ''category'' \<and> unset req ''available'' \<and>
        args_get req ''price'' = Some v \<and> v \<noteq> [] \<longrightarrow>
      list_products cats req db =
        listing (bind_sum (Decimal v) (\<lambda>d. find_by_price (Price_value d) db)) db) \<and>
   (unset req ''name'' \<and> unset req ''category'' \<and> unset req ''available'' \<and>
    unset req ''price'' \<longrightarrow>
      list_products cats req db =
        (Inr \<lparr>body = JList (map serialize (Product_all db)), status = 200,
              resp_headers = []\<rparr>, db))"
proof (intro conjI impI allI)
  fix k
  show "args_get (without_empty req) k =
        (if args_get req k = Some [] then None else args_get req k)"
    by (rule args_get_without_empty)
next
  show "list_products cats (without_empty req) db = list_products cats req db"
    by (simp add: list_products_winner first_present_without_empty)
next
  fix v
  assume a: "args_get req ''name'' = Some v \<and> v \<noteq> []"
  then obtain c cs where v: "v = c # cs" by (cases v) auto
  show "list_products cats req db = listing (Inr (find_by_name v db)) db"
    using a unfolding v by (simp add: list_products_def Let_def listing_def)
next
  fix v
  assume a: "unset req ''name'' \<and> args_get req ''category'' = Some v \<and> v \<noteq> []"
  then obtain c cs where v: "v = c # cs" by (cases v) auto
  have n: "unset req ''name''" using a by simp
  show "list_products cats req db =
        listing (bind_sum (getattr_Category cats (upper v))
                   (\<lambda>category. Inr (find_by_category category db))) db"
    using a unfolding v
    by (simp add: list_products_def Let_def listing_def unset_case [OF n])
next
  fix v
  assume a: "unset req ''name'' \<and> unset req ''category'' \<and>
        args_get req ''available'' = Some v \<and> v \<noteq> []"
  then obtain c cs where v: "v = c # cs" by (cases v) auto
  have n: "unset req ''name''" and c: "unset req ''category''" using a by simp_all
  show "list_products cats req db =
        listing (Inr (find_by_availability (lower v \<in> set [''true'', ''yes'', ''1'']) db)) db"
    using a unfolding v
    by (simp add: list_products_def Let_def listing_def unset_case [OF n] unset_case [OF c])
next
  fix v
  assume a: "unset req ''name'' \<and> unset req ''category'' \<and> unset req ''available'' \<and>
        args_get req ''price'' = Some v \<and> v \<noteq> []"
  then obtain c cs where v: "v = c # cs" by (cases v) auto
  have n: "unset req ''name''" and c: "unset req ''category''"
    and av: "unset req ''available''" using a by simp_all
  show "list_products cats req db =
        listing (bind_sum (Decimal v) (\<lambda>d. find_by_price (Price_value d) db)) db"
    using a unfolding v
    by (simp add: list_products_def Let_def listing_def unset_case [OF n] unset_case [OF c]
        unset_case [OF av])
next
  assume a: "unset req ''name'' \<and> unset req ''category'' \<and> unset req ''available'' \<and>
    unset req ''price''"
  have n: "unset req ''name''" and c: "unset req ''category''"
    and av: "unset req ''available''" and p: "unset req ''price''" using a by simp_all
  show "list_products cats req db =
        (Inr \<lparr>body = JList (map serialize (Product_all db)), status = 200,
              resp_headers = []\<rparr>, db)"
    by (simp add: list_products_def Let_def unset_case [OF n] unset_case [OF c]
        unset_case [OF av] unset_case [OF p])
qed

theorem list_products_empty_as_absent_witness:
  "without_empty (json_request [(''name'', []), (''category'', ''unknown'')] None) =
     json_request [(''category'', ''unknown'')] None \<and>
   list_products example_categories
     (json_request [(''name'', ''Fedora''), (''category'', [])] None) [fedora, kettle] =
     (Inr \<lparr>body = JList [serialize fedora], status = 200, resp_headers = []\<rparr>,
      [fedora, kettle]) \<and>
   list_products example_categories
     (json_request [(''name'', []), (''category'', ''unknown'')] None) [fedora, kettle] =
     (Inr \<lparr>body = JList [serialize kettle], status = 200, resp_headers = []\<rparr>,
      [fedora, kettle]) \<and>
   list_products example_categories
     (json_request [(''name'', []), (''category'', []), (''available'', ''Yes'')] None)
     [fedora, kettle] =
     (Inr \<lparr>body = JList [serialize fedora], status = 200, resp_headers = []\<rparr>,
      [fedora, kettle]) \<and>
   list_products example_categories
     (json_request [(''name'', []), (''price'', ''19.99'')] None) [fedora, kettle] =
     (Inr \<lparr>body = JList [serialize kettle], status = 200, resp_headers = []\<rparr>,
      [fedora, kettle]) \<and>
   list_products example_categories
     (json_request [(''name'', []), (''price'', [])] None) [fedora, kettle] =
     (Inr \<lparr>body = JList [serialize fedora, serialize kettle], status = 200,
           resp_headers = []\<rparr>, [fedora, kettle])"
proof -
  let ?db = "[fedora, kettle]"
  let ?r1 = "json_request [(''name'', ''Fedora''), (''category'', [])] None"
  let ?r2 = "json_request [(''name'', []), (''category'', ''unknown'')] None"
  let ?r3 = "json_request [(''name'', []), (''category'', []), (''available'', ''Yes'')] None"
  let ?r4 = "json_request [(''name'', []), (''price'', ''19.99'')] None"
  let ?r5 = "json_request [(''name'', []), (''price'', [])] None"
  have w: "without_empty ?r2 = json_request [(''category'', ''unknown'')] None"
    by (simp add: without_empty_def json_request_def args_get_def)
  have h1: "args_get ?r1 ''name'' = Some ''Fedora'' \<and> ''Fedora'' \<noteq> []"
    by (simp add: args_get_def json_request_def)
  have h2: "unset ?r2 ''name'' \<and> args_get ?r2 ''category'' = Some ''unknown'' \<and> ''unknown'' \<noteq> []"
    by (simp add: unset_def args_get_def json_request_def)
  have h3: "unset ?r3 ''name'' \<and> unset ?r3 ''category'' \<and>
      args_get ?r3 ''available'' = Some ''Yes'' \<and> ''Yes'' \<noteq> []"
    by (simp add: unset_def args_get_def json_request_def)
  have h4: "unset ?r4 ''name'' \<and> unset ?r4 ''category'' \<and> unset ?r4 ''available'' \<and>
      args_get ?r4 ''price'' = Some ''19.99'' \<and> ''19.99'' \<noteq> []"
    by (simp add: unset_def args_get_def json_request_def)
  have h5: "unset ?r5 ''name'' \<and> unset ?r5 ''category'' \<and> unset ?r5 ''available'' \<and>
      unset ?r5 ''price''"
    by (simp add: unset_def args_get_def json_request_def)
  have e1: "listing (Inr (find_by_name ''Fedora'' ?db)) ?db =
      (Inr \<lparr>body = JList [serialize fedora], status = 200, resp_headers = []\<rparr>, ?db)"
    by code_simp
  have e2: "listing (bind_sum (getattr_Category example_categories (upper ''unknown''))
                   (\<lambda>category. Inr (find_by_category category ?db))) ?db =
      (Inr \<lparr>body = JList [serialize kettle], status = 200, resp_headers = []\<rparr>, ?db)"
    by code_simp
  have e3: "listing (Inr (find_by_availability (lower ''Yes'' \<in> set [''true'', ''yes'', ''1'']) ?db)) ?db =
      (Inr \<lparr>body = JList [serialize fedora], status = 200, resp_headers = []\<rparr>, ?db)"
    by code_simp
  have e4: "listing (bind_sum (Decimal ''19.99'') (\<lambda>d. find_by_price (Price_value d) ?db)) ?db =
      (Inr \<lparr>body = JList [serialize kettle], status = 200, resp_headers = []\<rparr>, ?db)"
    by code_simp
  note t1 = list_products_empty_as_absent [of ?r1 example_categories ?db]
  note t2 = list_products_empty_as_absent [of ?r2 example_categories ?db]
  note t3 = list_products_empty_as_absent [of ?r3 example_categories ?db]
  note t4 = list_products_empty_as_absent [of ?r4 example_categories ?db]
  note t5 = list_products_empty_as_absent [of ?r5 example_categories ?db]
  have a1: "list_products example_categories ?r1 ?db = listing (Inr (find_by_name ''Fedora'' ?db)) ?db"
    using t1 h1 by blast
  have a2: "list_products example_categories ?r2 ?db =
      listing (bind_sum (getattr_Category example_categories (upper ''unknown''))
                   (\<lambda>category. Inr (find_by_category category ?db))) ?db"
    using t2 h2 by blast
  have a3: "list_products example_categories ?r3 ?db =
      listing (Inr (find_by_availability (lower ''Yes'' \<in> set [''true'', ''yes'', ''1'']) ?db)) ?db"
    using t3 h3 by blast
  have a4: "list_products example_categories ?r4 ?db =
      listing (bind_sum (Decimal ''19.99'') (\<lambda>d. find_by_price (Price_value d) ?db)) ?db"
    using t4 h4 by blast
  have a5: "list_products example_categories ?r5 ?db =
      (Inr \<lparr>body = JList (map serialize (Product_all ?db)), status = 200,
            resp_headers = []\<rparr>, ?db)"
    using t5 h5 by blast
  show ?thesis
    unfolding a1 a2 a3 a4 a5 e1 e2 e3 e4 w by (simp add: Product_all_def)
qed

text \<open>
  Claim C10. A \<^verbatim>\<open>GET /products\<close> request with no non-empty \<^verbatim>\<open>name\<close> and a non-empty
  \<^verbatim>\<open>category\<close> whose upper-case form is not a member name of the enumeration makes the
  handler raise \<^verbatim>\<open>AttributeError\<close>: no response is returned. There are such requests.
\<close>

theorem list_products_unknown_category_raises:
  assumes "args_get req ''name'' = None \<or> args_get req ''name'' = Some []"
    and "args_get req ''category'' = Some v" and "v \<noteq> []"
    and "upper v \<notin> set cats"
  shows "list_products cats req db = (Inl AttributeError, db)"
proof -
  obtain c cs where v: "v = c # cs" using assms(3) by (cases v) auto
  show ?thesis
    using assms(1,2,4) unfolding v
    by (auto simp: list_products_def Let_def getattr_Category_def bind_sum_def)
qed

theorem list_products_unknown_category_raises_witness:
  "(args_get (json_request [(''name'', ''''), (''category'', ''hats'')] None) ''name'' = None \<or>
    args_get (json_request [(''name'', ''''), (''category'', ''hats'')] None) ''name'' = Some []) \<and>
   args_get (json_request [(''name'', ''''), (''category'', ''hats'')] None) ''category'' =
     Some ''hats'' \<and>
   ''hats'' \<noteq> [] \<and>
   upper ''hats'' \<notin> set example_categories \<and>
   list_products example_categories
     (json_request [(''name'', ''''), (''category'', ''hats'')] None) [fedora, kettle] =
     (Inl AttributeError, [fedora, kettle])"
proof -
  let ?req = "json_request [(''name'', ''''), (''category'', ''hats'')] None"
  have a: "args_get ?req ''name'' = None \<or> args_get ?req ''name'' = Some []"
    by (simp add: args_get_def json_request_def)
  have b: "args_get ?req ''category'' = Some ''hats''"
    by (simp add: args_get_def json_request_def)
  have c: "''hats'' \<noteq> []" by simp
  have d: "upper ''hats'' \<notin> set example_categories" by code_simp
  from list_products_unknown_category_raises [OF a b c d, of "[fedora, kettle]"] show ?thesis using a b c d by simp
qed

subsection \<open>Updating a product\<close>

text \<open>
  Claim C3, as amended. For every \<^verbatim>\<open>PUT /products/{id}\<close> request with JSON content type:
  if no record has that id the handler aborts with 404; otherwise, when the body is JSON
  that deserializes onto the existing record, the record keeps the id of the path
  whatever id the body gives, it replaces the stored row of that id, and the response is
  200 with the updated record, serialized.
\<close>

theorem update_a_product_contract:
  assumes "map_of (headers req) ''Content-Type'' = Some ''application/json''"
  shows "(Product_find (int product_id) db = None \<longrightarrow>
            update_a_product cats product_id req db =
              (Inl (HTTPException 404 (not_found_message product_id)), db)) \<and>
         (\<forall>product0 data product1.
            Product_find (int product_id) db = Some product0 \<and> json_body req = Some data \<and>
            deserialize cats product0 data = Inr product1 \<longrightarrow>
            (let product = product1\<lparr>pid := Some (int product_id)\<rparr>;
                 db' = map (\<lambda>r. if pid r = Some (int product_id) then product else r) db
             in update_a_product cats product_id req db =
                  (Inr \<lparr>body = serialize product, status = 200, resp_headers = []\<rparr>, db') \<and>
                pid product = Some (int product_id) \<and>
                Product_find (int product_id) db' = Some product))"
proof (intro conjI impI allI)
  assume "Product_find (int product_id) db = None"
  then show "update_a_product cats product_id req db =
      (Inl (HTTPException 404 (not_found_message product_id)), db)"
    using assms by (simp add: update_a_product_def check_content_type_def)
next
  fix product0 data product1
  assume a: "Product_find (int product_id) db = Some product0 \<and> json_body req = Some data \<and>
            deserialize cats product0 data = Inr product1"
  define product where "product = product1\<lparr>pid := Some (int product_id)\<rparr>"
  define db' where "db' = map (\<lambda>r. if pid r = Some (int product_id) then product else r) db"
  have ex: "list_ex (\<lambda>r. pid r = Some (int product_id)) db"
    using a by (auto simp: Product_find_def find_Some_iff list_ex_iff)
  have u: "update product db = Inr db'"
    using ex by (simp add: update_def product_def db'_def)
  have h: "update_a_product cats product_id req db =
      (Inr \<lparr>body = serialize product, status = 200, resp_headers = []\<rparr>, db')"
    using assms a u
    by (simp add: update_a_product_def check_content_type_def get_json_def Let_def
        product_def [symmetric])
  have f: "Product_find (int product_id) db' = Some product"
    unfolding db'_def using a by (intro Product_find_replaced) (simp_all add: product_def)
  show "let product = product1\<lparr>pid := Some (int product_id)\<rparr>;
            db' = map (\<lambda>r. if pid r = Some (int product_id) then product else r) db
        in update_a_product cats product_id req db =
             (Inr \<lparr>body = serialize product, status = 200, resp_headers = []\<rparr>, db') \<and>
           pid product = Some (int product_id) \<and>
           Product_find (int product_id) db' = Some product"
    using h f unfolding Let_def product_def db'_def by simp
qed

theorem update_a_product_contract_witness:
  "map_of (headers (json_request []
      (Some (JObj [(''id'', JInt 99), (''name'', JStr ''Trilby''), (''price'', JStr ''15.00''),
                   (''available'', JBool False), (''category'', JStr ''CLOTHS'')]))))
     ''Content-Type'' = Some ''application/json'' \<and>
   Product_find (int 7) [fedora, kettle] = None \<and>
   update_a_product example_categories 7
     (json_request []
        (Some (JObj [(''id'', JInt 99), (''name'', JStr ''Trilby''), (''price'', JStr ''15.00''),
                     (''available'', JBool False), (''category'', JStr ''CLOTHS'')])))
     [fedora, kettle] =
     (Inl (HTTPException 404 (not_found_message 7)), [fedora, kettle]) \<and>
   Product_find (int 1) [fedora, kettle] = Some fedora \<and>
   update_a_product example_categories 1
     (json_request []
        (Some (JObj [(''id'', JInt 99), (''name'', JStr ''Trilby''), (''price'', JStr ''15.00''),
                     (''available'', JBool False), (''category'', JStr ''CLOTHS'')])))
     [fedora, kettle] =
     (Inr \<lparr>body =
             JObj [(''id'', JInt 1), (''name'', JStr ''Trilby''),
                   (''description'', JStr ''A red hat''), (''price'', JStr ''15.00''),
                   (''available'', JBool False), (''category'', JStr ''CLOTHS'')],
           status = 200, resp_headers = []\<rparr>,
      [fedora\<lparr>name := ''Trilby'', price := Dec False 1500 (- 2), available := False\<rparr>,
       kettle])"
proof -
  let ?data = "JObj [(''id'', JInt 99), (''name'', JStr ''Trilby''), (''price'', JStr ''15.00''),
                     (''available'', JBool False), (''category'', JStr ''CLOTHS'')]"
  let ?req = "json_request [] (Some ?data)"
  let ?p1 = "fedora\<lparr>pid := Some 99, name := ''Trilby'', price := Dec False 1500 (- 2),
                    available := False\<rparr>"
  have ct: "map_of (headers ?req) ''Content-Type'' = Some ''application/json''"
    by (simp add: json_request_def)
  have n: "Product_find (int 7) [fedora, kettle] = None" by code_simp
  have f: "Product_find (int 1) [fedora, kettle] = Some fedora" by code_simp
  have b: "json_body ?req = Some ?data" by (simp add: json_request_def)
  have d: "deserialize example_categories fedora ?data = Inr ?p1" by code_simp
  have s: "serialize (?p1\<lparr>pid := Some (int 1)\<rparr>) =
             JObj [(''id'', JInt 1), (''name'', JStr ''Trilby''),
                   (''description'', JStr ''A red hat''), (''price'', JStr ''15.00''),
                   (''available'', JBool False), (''category'', JStr ''CLOTHS'')]"
    by code_simp
  have m: "map (\<lambda>r. if pid r = Some (int 1) then ?p1\<lparr>pid := Some (int 1)\<rparr> else r) [fedora, kettle] =
           [fedora\<lparr>name := ''Trilby'', price := Dec False 1500 (- 2), available := False\<rparr>, kettle]"
    by (simp add: fedora_def kettle_def)
  note t7 = update_a_product_contract [OF ct, of 7 "[fedora, kettle]" example_categories, THEN conjunct1, rule_format, OF n]
  note t1 = update_a_product_contract [OF ct, of 1 "[fedora, kettle]" example_categories, THEN conjunct2, rule_format,
      of fedora ?data ?p1]
  from t1 f b d have "update_a_product example_categories 1 ?req [fedora, kettle] =
      (Inr \<lparr>body = serialize (?p1\<lparr>pid := Some (int 1)\<rparr>), status = 200, resp_headers = []\<rparr>,
       map (\<lambda>r. if pid r = Some (int 1) then ?p1\<lparr>pid := Some (int 1)\<rparr> else r) [fedora, kettle])"
    by (simp add: Let_def)
  then show ?thesis using ct n f t7 unfolding s m by simp
qed

theorem update_a_product_contract_counterexample:
  "map_of (headers (json_request [] (Some JNull))) ''Content-Type'' = Some ''application/json'' \<and>
   Product_find (int 1) [fedora, kettle] = Some fedora \<and>
   update_a_product example_categories 1 (json_request [] (Some JNull)) [fedora, kettle] =
     (Inl DataValidationError, [fedora, kettle])"
  by code_simp

text \<open>
  Claim C6. \<^verbatim>\<open>update()\<close> on a record whose id is \<^verbatim>\<open>None\<close> fails with a validation error,
  and on a record whose id matches no row it fails with the not-found condition.
\<close>

theorem update_fails:
  "(pid self = None \<longrightarrow> update self db = Inl DataValidationError) \<and>
   (\<forall>i. pid self = Some i \<and> Product_find i db = None \<longrightarrow> update self db = Inl NotFound)"
  by (auto simp: update_def Product_find_None_iff list_ex_iff)

theorem update_fails_witness:
  "pid (fedora\<lparr>pid := None\<rparr>) = None \<and>
   update (fedora\<lparr>pid := None\<rparr>) [fedora, kettle] = Inl DataValidationError \<and>
   pid (fedora\<lparr>pid := Some 7\<rparr>) = Some 7 \<and>
   Product_find 7 [fedora, kettle] = None \<and>
   update (fedora\<lparr>pid := Some 7\<rparr>) [fedora, kettle] = Inl NotFound"
proof -
  have a: "pid (fedora\<lparr>pid := None\<rparr>) = None" by simp
  have b: "pid (fedora\<lparr>pid := Some 7\<rparr>) = Some 7" by simp
  have n: "Product_find 7 [fedora, kettle] = None" by code_simp
  from update_fails [of "fedora\<lparr>pid := None\<rparr>" "[fedora, kettle]", THEN conjunct1, rule_format, OF a]
    update_fails [of "fedora\<lparr>pid := Some 7\<rparr>" "[fedora, kettle]", THEN conjunct2, rule_format, of 7]
  show ?thesis using a b n by simp
qed

subsection \<open>Creating a product\<close>

text \<open>
  Claim C4. For every \<^verbatim>\<open>POST /products\<close> request with content type
  \<^verbatim>\<open>application/json\<close> and a body that deserializes into a new record, the record is
  added to the store under a fresh id, the response is 201 with the serialized record,
  its \<^verbatim>\<open>Location\<close> header is a URL of the rule \<^verbatim>\<open>/products/<int:product_id>\<close> for that id,
  and \<^verbatim>\<open>get_a_product\<close> for that id answers 200 with the same data.
\<close>

theorem create_products_created:
  assumes "map_of (headers req) ''Content-Type'' = Some ''application/json''"
    and "json_body req = Some data"
    and "deserialize cats Product_new data = Inr product0"
  shows "let i = fresh_id db;
             product = product0\<lparr>pid := Some i\<rparr>;
             db' = db @ [product];
             url = server req @ ''/products/'' @ str_int i
         in create_products cats req db =
              (Inr \<lparr>body = serialize product, status = 201,
                    resp_headers = [(''Location'', url)]\<rparr>, db') \<and>
            route_product_id req url = Some (nat i) \<and>
            get_a_product (nat i) db' =
              (Inr \<lparr>body = serialize product, status = 200, resp_headers = []\<rparr>, db')"
proof -
  define i where "i = fresh_id db"
  define product where "product = product0\<lparr>pid := Some i\<rparr>"
  have pos: "0 \<le> i" using fresh_id_positive [of db] by (simp add: i_def)
  have c: "create_products cats req db =
      (Inr \<lparr>body = serialize product, status = 201,
            resp_headers = [(''Location'', server req @ ''/products/'' @ str_int i)]\<rparr>,
       db @ [product])"
    using assms
    by (simp add: create_products_def check_content_type_def get_json_def create_def Let_def
        url_for_get_a_product_def product_def i_def)
  have r: "route_product_id req (server req @ ''/products/'' @ str_int i) = Some (nat i)"
    using pos by (rule route_url_for)
  have "Product_find i (db @ [product]) = Some product"
    using fresh_id_fresh [of db] by (intro Product_find_append_new) (simp_all add: i_def product_def)
  then have g: "get_a_product (nat i) (db @ [product]) =
      (Inr \<lparr>body = serialize product, status = 200, resp_headers = []\<rparr>, db @ [product])"
    using pos by (simp add: get_a_product_def)
  show ?thesis
    using c r g by (simp add: Let_def i_def product_def)
qed

theorem create_products_created_witness:
  "map_of (headers (json_request [] (Some fedora_body))) ''Content-Type'' =
     Some ''application/json'' \<and>
   json_body (json_request [] (Some fedora_body)) = Some fedora_body \<and>
   deserialize example_categories Product_new fedora_body =
     Inr \<lparr>pid = None, name = ''Fedora'', description = None, price = Dec False 125 (- 1),
          available = True, category = Member ''CLOTHS''\<rparr> \<and>
   create_products example_categories (json_request [] (Some fedora_body)) [fedora, kettle] =
     (Inr \<lparr>body =
             JObj [(''id'', JInt 3), (''name'', JStr ''Fedora''), (''description'', JNull),
                   (''price'', JStr ''12.5''), (''available'', JBool True),
                   (''category'', JStr ''CLOTHS'')],
           status = 201, resp_headers = [(''Location'', ''http://localhost/products/3'')]\<rparr>,
      [fedora, kettle,
       \<lparr>pid = Some 3, name = ''Fedora'', description = None, price = Dec False 125 (- 1),
        available = True, category = Member ''CLOTHS''\<rparr>]) \<and>
   route_product_id (json_request [] (Some fedora_body)) ''http://localhost/products/3'' = Some 3 \<and>
   get_a_product 3
     [fedora, kettle,
      \<lparr>pid = Some 3, name = ''Fedora'', description = None, price = Dec False 125 (- 1),
       available = True, category = Member ''CLOTHS''\<rparr>] =
     (Inr \<lparr>body =
             JObj [(''id'', JInt 3), (''name'', JStr ''Fedora''), (''description'', JNull),
                   (''price'', JStr ''12.5''), (''available'', JBool True),
                   (''category'', JStr ''CLOTHS'')],
           status = 200, resp_headers = []\<rparr>,
      [fedora, kettle,
       \<lparr>pid = Some 3, name = ''Fedora'', description = None, price = Dec False 125 (- 1),
        available = True, category = Member ''CLOTHS''\<rparr>])"
proof -
  let ?req = "json_request [] (Some fedora_body)"
  let ?p0 = "\<lparr>pid = None, name = ''Fedora'', description = None, price = Dec False 125 (- 1),
          available = True, category = Member ''CLOTHS''\<rparr>"
  have ct: "map_of (headers ?req) ''Content-Type'' = Some ''application/json''"
    by (simp add: json_request_def)
  have b: "json_body ?req = Some fedora_body" by (simp add: json_request_def)
  have d: "deserialize example_categories Product_new fedora_body = Inr ?p0" by code_simp
  have i: "fresh_id [fedora, kettle] = 3" by code_simp
  have u: "server ?req @ ''/products/'' @ str_int 3 = ''http://localhost/products/3''"
    by code_simp
  have s: "serialize (?p0\<lparr>pid := Some 3\<rparr>) =
             JObj [(''id'', JInt 3), (''name'', JStr ''Fedora''), (''description'', JNull),
                   (''price'', JStr ''12.5''), (''available'', JBool True),
                   (''category'', JStr ''CLOTHS'')]"
    by code_simp
  from create_products_created [OF ct b d, of "[fedora, kettle]"] show ?thesis
    using ct b d unfolding Let_def i u s by simp
qed

text \<open>
  Claim C5. For every \<^verbatim>\<open>POST /products\<close> request whose \<^verbatim>\<open>Content-Type\<close> header is missing
  or is not \<^verbatim>\<open>application/json\<close>, the handler aborts with 415 and the store is unchanged.
\<close>

theorem create_products_unsupported_media_type:
  "map_of (headers req) ''Content-Type'' \<noteq> Some ''application/json'' \<Longrightarrow>
   create_products cats req db =
     (Inl (HTTPException 415 ''Content-Type must be application/json''), db)"
  by (simp add: create_products_def check_content_type_def split: option.splits)

theorem create_products_unsupported_media_type_witness:
  "map_of (headers \<lparr>headers = [(''Content-Type'', ''text/plain'')], args = [],
                    json_body = Some fedora_body, server = ''http://localhost''\<rparr>)
     ''Content-Type'' \<noteq> Some ''application/json'' \<and>
   create_products example_categories
     \<lparr>headers = [(''Content-Type'', ''text/plain'')], args = [],
      json_body = Some fedora_body, server = ''http://localhost''\<rparr> [fedora] =
     (Inl (HTTPException 415 ''Content-Type must be application/json''), [fedora]) \<and>
   map_of (headers \<lparr>headers = [], args = [], json_body = Some fedora_body,
                    server = ''http://localhost''\<rparr>)
     ''Content-Type'' \<noteq> Some ''application/json'' \<and>
   create_products example_categories
     \<lparr>headers = [], args = [], json_body = Some fedora_body,
      server = ''http://localhost''\<rparr> [fedora] =
     (Inl (HTTPException 415 ''Content-Type must be application/json''), [fedora])"
proof -
  let ?plain = "\<lparr>headers = [(''Content-Type'', ''text/plain'')], args = [],
      json_body = Some fedora_body, server = ''http://localhost''\<rparr>"
  let ?none = "\<lparr>headers = [], args = [], json_body = Some fedora_body,
      server = ''http://localhost''\<rparr>"
  have p: "map_of (headers ?plain) ''Content-Type'' \<noteq> Some ''application/json''" by simp
  have n: "map_of (headers ?none) ''Content-Type'' \<noteq> Some ''application/json''" by simp
  from create_products_unsupported_media_type [OF p, of example_categories "[fedora]"] create_products_unsupported_media_type [OF n, of example_categories "[fedora]"]
  show ?thesis using p n by simp
qed

subsection \<open>Finding by price\<close>



subsection \<open>Deleting a product\<close>

text \<open>
  Claim C8. For every \<^verbatim>\<open>DELETE /products/{id}\<close> request: if a record with that id exists
  it is deleted, no record with that id remains, and the response is 200 with a
  confirmation message; if none exists the response is 404 with a not-found message,
  returned as an ordinary response body and not raised as an \<^verbatim>\<open>HTTPException\<close>.
\<close>

theorem delete_a_product_contract:
  "(\<forall>product. Product_find (int product_id) db = Some product \<longrightarrow>
      delete_a_product product_id db =
        (Inr \<lparr>body = JObj [(''message'', JStr ''Product deleted.'')], status = 200,
              resp_headers = []\<rparr>, delete product db) \<and>
      Product_find (int product_id) (delete product db) = None) \<and>
   (Product_find (int product_id) db = None \<longrightarrow>
      delete_a_product product_id db =
        (Inr \<lparr>body = JObj [(''message'', JStr ''Product with given ID not found.'')],
              status = 404, resp_headers = []\<rparr>, db))"
  by (simp add: delete_a_product_def Product_find_delete)

theorem delete_a_product_contract_witness:
  "Product_find (int 1) [fedora, kettle] = Some fedora \<and>
   delete_a_product 1 [fedora, kettle] =
     (Inr \<lparr>body = JObj [(''message'', JStr ''Product deleted.'')], status = 200,
           resp_headers = []\<rparr>, [kettle]) \<and>
   Product_find (int 1) [kettle] = None \<and>
   delete_a_product 1 [kettle] =
     (Inr \<lparr>body = JObj [(''message'', JStr ''Product with given ID not found.'')],
           status = 404, resp_headers = []\<rparr>, [kettle])"
proof -
  have f: "Product_find (int 1) [fedora, kettle] = Some fedora" by code_simp
  have d: "delete fedora [fedora, kettle] = [kettle]" by code_simp
  have n: "Product_find (int 1) [kettle] = None" by code_simp
  from delete_a_product_contract [of 1 "[fedora, kettle]", THEN conjunct1, rule_format, OF f]
    delete_a_product_contract [of 1 "[kettle]", THEN conjunct2, rule_format, OF n]
  show ?thesis using f n unfolding d by simp
qed

end
